theory Spec2Isabelle
  imports Complex_Main "HOL-Library.Word"
begin

unbundle bit_operations_syntax

chapter \<open>The PowersBioStrikes website: client scripts and database schema\<close>

text \<open>
  The repository holds browser scripts (\<^verbatim>\<open>js/main.js\<close>, \<^verbatim>\<open>js/news-component.js\<close>, the
  Supabase configuration script) and SQL run in the hosted database (the catalysts table
  with its row-level-security policies and calendar view, the positions and
  catalyst_research tables, the waitlist trigger on new accounts). The first part of this
  theory embeds them; the second part states and proves their properties.
\<close>

section \<open>JavaScript strings and numbers\<close>

text \<open>
  A JavaScript string is a sequence of UTF-16 code units, and \<^verbatim>\<open>===\<close> on strings
  compares the sequences. String literals of the scripts are ASCII; \<open>js\<close> gives
  their code units.
\<close>

type_synonym js_string = "16 word list"

definition js :: "string \<Rightarrow> js_string" where
  "js s = map (\<lambda>c. of_nat (of_char c)) s"

text \<open>
  \<^verbatim>\<open>n + 'm ago'\<close> turns the number into its decimal numeral. The numbers rendered by
  the scripts are integers far below \<open>10^21\<close>, where JavaScript prints all the digits.
\<close>

fun show_nat :: "nat \<Rightarrow> string" where
  "show_nat n =
     (if n < 10 then [''0123456789'' ! n]
      else show_nat (n div 10) @ [''0123456789'' ! (n mod 10)])"

definition number_to_string :: "int \<Rightarrow> string" where
  "number_to_string i = (if i < 0 then CHR ''-'' # show_nat (nat (- i)) else show_nat (nat i))"

section \<open>News widget: \<^verbatim>\<open>timeAgo\<close>\<close>

text \<open>
  \<^verbatim>\<open>
  timeAgo(dateString) {
      const date = new Date(dateString);
      const now = new Date();
      const seconds = Math.floor((now - date) / 1000);
      if (seconds < 60) return 'just now';
      if (seconds < 3600) return Math.floor(seconds / 60) + 'm ago';
      if (seconds < 86400) return Math.floor(seconds / 3600) + 'h ago';
      return Math.floor(seconds / 86400) + 'd ago';
  }
  \<close>
  The function reads the clock and parses its argument. In the model both are inputs:
  \<open>now\<close> is the clock's time value and \<open>date\<close> the time value of
  \<^verbatim>\<open>new Date(dateString)\<close>, both in milliseconds since the epoch; \<open>None\<close> is the
  Invalid Date (time value NaN) that an unparsable string gives. Time values are whole
  numbers of milliseconds, so \<^verbatim>\<open>Math.floor(x / 1000)\<close> is \<open>x div 1000\<close> on
  \<^typ>\<open>int\<close>, which rounds towards minus infinity as \<^verbatim>\<open>Math.floor\<close> does. With NaN
  every comparison is false and the last line returns \<^verbatim>\<open>'NaNd ago'\<close>.

  The code computes on double-precision numbers. A time value is a whole number of at
  most \<open>8.64 * 10^15\<close> in magnitude and is a double; the difference of two can reach
  \<open>1.728 * 10^16\<close>, beyond \<open>2^53\<close>, where the subtraction of the code rounds to an
  even number and the subtraction on \<^typ>\<open>int\<close> does not. The definition is the code
  where \<open>now - date < 2^53\<close>: there the subtraction is exact, and the rounding of each
  quotient is smaller than the distance of the quotient from the next whole number, so
  that its floor is the integer quotient. What is proved of a result that depends on the
  size of a positive difference carries this bound as a hypothesis. A negative difference
  keeps its sign when it is rounded and gives \<^verbatim>\<open>'just now'\<close> in the code as in the
  definition, whatever its size.
\<close>

definition timeAgo :: "int \<Rightarrow> int option \<Rightarrow> string" where
  "timeAgo now date =
     (case date of
        None \<Rightarrow> ''NaNd ago''
      | Some d \<Rightarrow>
          (let seconds = (now - d) div 1000 in
           if seconds < 60 then ''just now''
           else if seconds < 3600 then number_to_string (seconds div 60) @ ''m ago''
           else if seconds < 86400 then number_to_string (seconds div 3600) @ ''h ago''
           else number_to_string (seconds div 86400) @ ''d ago''))"

section \<open>Form controller: \<^verbatim>\<open>isValidEmail\<close>\<close>

text \<open>
  \<^verbatim>\<open>
  function isValidEmail(email) {
      const emailRegex = /^[^\s@]+@[^\s@]+\.[^\s@]+$/;
      return emailRegex.test(email);
  }
  \<close>
  The regular expression has no flags, so it works on code units, \<^verbatim>\<open>^\<close> holds at
  index 0 of the input only and \<^verbatim>\<open>$\<close> at its end only. Its syntax tree is one
  alternative, a list of terms: the two assertions, and atoms that each consume one code
  unit, taken once or (with \<^verbatim>\<open>+\<close>) one or more times.
\<close>

datatype class_atom =
    Class_char "16 word"
  | Class_white_space

datatype atom =
    Pattern_char "16 word"
  | Char_class bool "class_atom list"

datatype quantifier = Once | One_or_more

datatype regex_term =
    Assert_start
  | Assert_end
  | Atom atom quantifier

type_synonym regex = "regex_term list"

text \<open>
  \<^verbatim>\<open>\s\<close> stands for the WhiteSpace and LineTerminator code points of ECMAScript: tab,
  line feed, vertical tab, form feed, carriage return, space, no-break space, U+1680,
  U+2000 to U+200A, U+2028, U+2029, U+202F, U+205F, U+3000 and U+FEFF.
\<close>

definition is_white_space :: "16 word \<Rightarrow> bool" where
  "is_white_space c \<longleftrightarrow>
     c = 0x9 \<or> c = 0xA \<or> c = 0xB \<or> c = 0xC \<or> c = 0xD \<or> c = 0x20 \<or> c = 0xA0
     \<or> c = 0x1680 \<or> (0x2000 \<le> c \<and> c \<le> 0x200A) \<or> c = 0x2028 \<or> c = 0x2029
     \<or> c = 0x202F \<or> c = 0x205F \<or> c = 0x3000 \<or> c = 0xFEFF"

fun class_atom_matches :: "class_atom \<Rightarrow> 16 word \<Rightarrow> bool" where
  "class_atom_matches (Class_char d) c = (c = d)"
| "class_atom_matches Class_white_space c = is_white_space c"

text \<open>\<open>Char_class True\<close> is an inverted class \<^verbatim>\<open>[^...]\<close>.\<close>

fun atom_matches :: "atom \<Rightarrow> 16 word \<Rightarrow> bool" where
  "atom_matches (Pattern_char d) c = (c = d)"
| "atom_matches (Char_class invert members) c =
     (list_ex (\<lambda>m. class_atom_matches m c) members \<noteq> invert)"

text \<open>
  The backtracking matcher: \<open>matches ts pos rest\<close> tries the terms \<open>ts\<close> at index
  \<open>pos\<close> of the input, of which \<open>rest\<close> is what lies from \<open>pos\<close> on. A greedy
  \<^verbatim>\<open>+\<close> first tries to take one more code unit and, when the terms after it then fail,
  goes on with the terms after it from where it stands.
\<close>

fun matches :: "regex \<Rightarrow> nat \<Rightarrow> js_string \<Rightarrow> bool" where
  "matches [] pos rest = True"
| "matches (Assert_start # ts) pos rest = (pos = 0 \<and> matches ts pos rest)"
| "matches (Assert_end # ts) pos rest = (rest = [] \<and> matches ts pos rest)"
| "matches (Atom a q # ts) pos [] = False"
| "matches (Atom a Once # ts) pos (c # cs) = (atom_matches a c \<and> matches ts (Suc pos) cs)"
| "matches (Atom a One_or_more # ts) pos (c # cs) =
     (atom_matches a c \<and>
      (matches (Atom a One_or_more # ts) (Suc pos) cs \<or> matches ts (Suc pos) cs))"

text \<open>
  \<^verbatim>\<open>test\<close> on a regular expression without the \<^verbatim>\<open>g\<close> and \<^verbatim>\<open>y\<close> flags tries the
  match at index 0, then 1, and so on up to the length of the input, and answers true at
  the first index where it succeeds.
\<close>

definition regex_test :: "regex \<Rightarrow> js_string \<Rightarrow> bool" where
  "regex_test r s = list_ex (\<lambda>i. matches r i (drop i s)) [0..<Suc (length s)]"

definition not_space_or_at :: atom where
  "not_space_or_at = Char_class True [Class_white_space, Class_char 0x40]"

definition emailRegex :: regex where
  "emailRegex =
     [Assert_start,
      Atom not_space_or_at One_or_more,
      Atom (Pattern_char 0x40) Once,
      Atom not_space_or_at One_or_more,
      Atom (Pattern_char 0x2E) Once,
      Atom not_space_or_at One_or_more,
      Assert_end]"

definition isValidEmail :: "js_string \<Rightarrow> bool" where
  "isValidEmail email = regex_test emailRegex email"

text \<open>
  The language the specification names, written out: a string matches
  \<^verbatim>\<open>^[^\s@]+@[^\s@]+\.[^\s@]+$\<close> when it is a nonempty run of code units that are
  neither white space nor \<^verbatim>\<open>@\<close>, then \<^verbatim>\<open>@\<close>, then such a run, then a dot, then such
  a run, and nothing else.
\<close>

definition plain_unit :: "16 word \<Rightarrow> bool" where
  "plain_unit c \<longleftrightarrow> \<not> is_white_space c \<and> c \<noteq> 0x40"

definition matches_email_pattern :: "js_string \<Rightarrow> bool" where
  "matches_email_pattern s \<longleftrightarrow>
     (\<exists>l d t. s = l @ [0x40] @ d @ [0x2E] @ t
        \<and> l \<noteq> [] \<and> list_all plain_unit l
        \<and> d \<noteq> [] \<and> list_all plain_unit d
        \<and> t \<noteq> [] \<and> list_all plain_unit t)"

section \<open>JavaScript values\<close>

text \<open>
  The values the scripts handle: what \<^verbatim>\<open>JSON.parse\<close> returns and what the Supabase
  client answers. An object is the list of its own properties, read by name (the first
  binding of a name counts); numbers are the finite ones. Properties inherited from the
  built-in prototypes are not part of the model: none of the fixed names the scripts read
  (\<^verbatim>\<open>email\<close>, \<^verbatim>\<open>data\<close>, \<^verbatim>\<open>error\<close>, \<^verbatim>\<open>user\<close>, \<^verbatim>\<open>session\<close>,
  \<^verbatim>\<open>by_ticker\<close>, \<^verbatim>\<open>categories\<close>, \<^verbatim>\<open>tags\<close>) is one, and the symbol of a stock,
  the one name that is not fixed, is taken not to be one either.
\<close>

datatype val =
    Undefined
  | Null
  | Bool bool
  | Num rat
  | Str js_string
  | Arr "val list"
  | Obj "(js_string \<times> val) list"

datatype js_error =
    TypeError
  | SyntaxError
  | Thrown val

text \<open>
  \<^verbatim>\<open>v.name\<close>: reading a property of \<^verbatim>\<open>undefined\<close> or \<^verbatim>\<open>null\<close> throws a
  TypeError; an object gives the property's value or \<^verbatim>\<open>undefined\<close>; an array or a
  string gives its \<^verbatim>\<open>length\<close> and its elements under their decimal indices; any other
  value gives \<^verbatim>\<open>undefined\<close>.
\<close>

definition index_of_key :: "js_string \<Rightarrow> nat \<Rightarrow> nat option" where
  "index_of_key key n = find (\<lambda>i. js (show_nat i) = key) [0..<n]"

fun get_prop :: "val \<Rightarrow> js_string \<Rightarrow> js_error + val" where
  "get_prop Undefined key = Inl TypeError"
| "get_prop Null key = Inl TypeError"
| "get_prop (Obj ps) key = Inr (case map_of ps key of None \<Rightarrow> Undefined | Some v \<Rightarrow> v)"
| "get_prop (Arr xs) key =
     Inr (if key = js ''length'' then Num (of_nat (length xs))
          else case index_of_key key (length xs) of None \<Rightarrow> Undefined | Some i \<Rightarrow> xs ! i)"
| "get_prop (Str s) key =
     Inr (if key = js ''length'' then Num (of_nat (length s))
          else case index_of_key key (length s) of None \<Rightarrow> Undefined | Some i \<Rightarrow> Str [s ! i])"
| "get_prop (Bool b) key = Inr Undefined"
| "get_prop (Num n) key = Inr Undefined"

text \<open>\<^verbatim>\<open>!!v\<close>, the truth value of \<open>v\<close> in a condition.\<close>

fun to_boolean :: "val \<Rightarrow> bool" where
  "to_boolean Undefined = False"
| "to_boolean Null = False"
| "to_boolean (Bool b) = b"
| "to_boolean (Num n) = (n \<noteq> 0)"
| "to_boolean (Str s) = (s \<noteq> [])"
| "to_boolean (Arr xs) = True"
| "to_boolean (Obj ps) = True"

section \<open>Form controller: \<^verbatim>\<open>storeEmail\<close>\<close>

text \<open>
  \<^verbatim>\<open>
  function storeEmail(email, source) {
      const storedEmails = JSON.parse(localStorage.getItem('pbs_waitlist') || '[]');
      const isDuplicate = storedEmails.some(function(entry) {
          return entry.email === email;
      });
      if (!isDuplicate) {
          storedEmails.push({
              email: email,
              source: source,
              timestamp: new Date().toISOString()
          });
          localStorage.setItem('pbs_waitlist', JSON.stringify(storedEmails));
      }
      console.log('Email captured:', email, 'Source:', source);
      console.log('Total waitlist:', storedEmails.length);
  }
  \<close>
  The state is what the browser's local storage holds under the key
  \<^verbatim>\<open>pbs_waitlist\<close>: nothing (\<open>None\<close>), or a text. A text is modelled by what
  \<^verbatim>\<open>JSON.parse\<close> makes of it: the empty text, a text that is not JSON, or the JSON text
  of a value (\<^verbatim>\<open>JSON.stringify\<close> of a value read by \<^verbatim>\<open>JSON.parse\<close>, with some
  entries added, writes a text that reads back as that value). The storage is taken to
  have room for the text written; the two console lines change no state and are left out.
  The caller passes the trimmed content of the input field as \<open>email\<close> and the form's
  name as \<open>source\<close>; \<open>now\<close> is \<^verbatim>\<open>new Date().toISOString()\<close>.
\<close>

datatype item =
    Empty_text
  | Not_json
  | Json val

text \<open>\<^verbatim>\<open>JSON.parse(localStorage.getItem('pbs_waitlist') || '[]')\<close>\<close>

fun read_waitlist :: "item option \<Rightarrow> js_error + val" where
  "read_waitlist None = Inr (Arr [])"
| "read_waitlist (Some Empty_text) = Inr (Arr [])"
| "read_waitlist (Some Not_json) = Inl SyntaxError"
| "read_waitlist (Some (Json v)) = Inr v"

text \<open>
  \<^verbatim>\<open>storedEmails.some(function(entry) { return entry.email === email; })\<close> on the
  elements of an array, in order, stopping at the first entry for which the callback
  returns true.
\<close>

fun some_email :: "js_string \<Rightarrow> val list \<Rightarrow> js_error + bool" where
  "some_email email [] = Inr False"
| "some_email email (entry # entries) =
     (case get_prop entry (js ''email'') of
        Inl e \<Rightarrow> Inl e
      | Inr v \<Rightarrow> if v = Str email then Inr True else some_email email entries)"

definition new_entry :: "js_string \<Rightarrow> js_string \<Rightarrow> js_string \<Rightarrow> val" where
  "new_entry email source now =
     Obj [(js ''email'', Str email), (js ''source'', Str source), (js ''timestamp'', Str now)]"

text \<open>
  The result is the storage after the call, or the exception that ends the call (before
  anything is written). Only an array has a \<^verbatim>\<open>some\<close> method.
\<close>

definition storeEmail ::
  "js_string \<Rightarrow> js_string \<Rightarrow> js_string \<Rightarrow> item option \<Rightarrow> js_error + item option" where
  "storeEmail email source now storage =
     (case read_waitlist storage of
        Inl e \<Rightarrow> Inl e
      | Inr (Arr storedEmails) \<Rightarrow>
          (case some_email email storedEmails of
             Inl e \<Rightarrow> Inl e
           | Inr isDuplicate \<Rightarrow>
               if \<not> isDuplicate
               then Inr (Some (Json (Arr (storedEmails @ [new_entry email source now]))))
               else Inr storage)
      | Inr _ \<Rightarrow> Inl TypeError)"

text \<open>The entries of a stored list whose \<^verbatim>\<open>email\<close> is the given string.\<close>

definition has_email :: "js_string \<Rightarrow> val \<Rightarrow> bool" where
  "has_email email entry \<longleftrightarrow> get_prop entry (js ''email'') = Inr (Str email)"

definition count_email :: "js_string \<Rightarrow> val list \<Rightarrow> nat" where
  "count_email email entries = length (filter (has_email email) entries)"

fun is_object :: "val \<Rightarrow> bool" where
  "is_object (Obj ps) = True"
| "is_object _ = False"

section \<open>Auth client wrapper: \<^verbatim>\<open>pbsAuth\<close>\<close>

text \<open>
  The configuration script wraps the Supabase client in the object \<^verbatim>\<open>pbsAuth\<close>. Every
  operation below is an \<^verbatim>\<open>async\<close> function that awaits one call of the client. What a
  call does is an input of the model: it answers with a value, or it throws (its promise
  is rejected). An \<^verbatim>\<open>async\<close> function that throws rejects its own promise, so
  \<open>Inl e\<close> is the exception \<open>e\<close> reaching the caller of the operation and \<open>Inr v\<close> the
  value \<open>v\<close> returned to it.
\<close>

type_synonym 'a completion = "js_error + 'a"

definition and_then :: "'a completion \<Rightarrow> ('a \<Rightarrow> 'b completion) \<Rightarrow> 'b completion" where
  "and_then c f = (case c of Inl e \<Rightarrow> Inl e | Inr v \<Rightarrow> f v)"

text \<open>
  The calls the wrapper makes on \<^verbatim>\<open>supabaseClient\<close>: seven methods of
  \<^verbatim>\<open>supabaseClient.auth\<close>, and the two query chains
  \<^verbatim>\<open>.from(table).select(columns).eq(column, value).single()\<close> and
  \<^verbatim>\<open>.from(table).upsert(row)\<close>.
\<close>

record supabase_client =
  auth_getUser :: "val completion"
  auth_getSession :: "val completion"
  auth_signUp :: "val \<Rightarrow> val completion"
  auth_signInWithPassword :: "val \<Rightarrow> val completion"
  auth_signOut :: "val completion"
  auth_resetPasswordForEmail :: "val \<Rightarrow> val \<Rightarrow> val completion"
  auth_updateUser :: "val \<Rightarrow> val completion"
  from_select_eq_single :: "js_string \<Rightarrow> js_string \<Rightarrow> js_string \<Rightarrow> val \<Rightarrow> val completion"
  from_upsert :: "js_string \<Rightarrow> val \<Rightarrow> val completion"

text \<open>
  \<^verbatim>\<open>const { data, error } = answer; return { data, error };\<close> The destructuring reads
  the two properties, which throws a TypeError when the answer is \<^verbatim>\<open>undefined\<close> or
  \<^verbatim>\<open>null\<close>.
\<close>

definition data_error :: "val \<Rightarrow> val completion" where
  "data_error answer =
     and_then (get_prop answer (js ''data'')) (\<lambda>data.
     and_then (get_prop answer (js ''error'')) (\<lambda>error.
     Inr (Obj [(js ''data'', data), (js ''error'', error)])))"

text \<open>
  \<^verbatim>\<open>
  async getUser() {
      const { data: { user } } = await supabaseClient.auth.getUser();
      return user;
  }
  async getSession() {
      const { data: { session } } = await supabaseClient.auth.getSession();
      return session;
  }
  \<close>
\<close>

definition getUser :: "supabase_client \<Rightarrow> val completion" where
  "getUser client =
     and_then (auth_getUser client) (\<lambda>answer.
     and_then (get_prop answer (js ''data'')) (\<lambda>data.
     get_prop data (js ''user'')))"

definition getSession :: "supabase_client \<Rightarrow> val completion" where
  "getSession client =
     and_then (auth_getSession client) (\<lambda>answer.
     and_then (get_prop answer (js ''data'')) (\<lambda>data.
     get_prop data (js ''session'')))"

text \<open>
  \<^verbatim>\<open>
  async signUp(email, password, fullName) {
      const { data, error } = await supabaseClient.auth.signUp({
          email,
          password,
          options: {
              data: { full_name: fullName },
              emailRedirectTo: `${window.location.origin}/auth-callback.html`
          }
      });
      return { data, error };
  }
  \<close>
  \<open>origin\<close> is \<^verbatim>\<open>window.location.origin\<close>.
\<close>

definition signUp_credentials :: "js_string \<Rightarrow> val \<Rightarrow> val \<Rightarrow> val \<Rightarrow> val" where
  "signUp_credentials origin email password fullName =
     Obj [(js ''email'', email),
          (js ''password'', password),
          (js ''options'',
             Obj [(js ''data'', Obj [(js ''full_name'', fullName)]),
                  (js ''emailRedirectTo'', Str (origin @ js ''/auth-callback.html''))])]"

definition signUp :: "supabase_client \<Rightarrow> js_string \<Rightarrow> val \<Rightarrow> val \<Rightarrow> val \<Rightarrow> val completion" where
  "signUp client origin email password fullName =
     and_then (auth_signUp client (signUp_credentials origin email password fullName)) data_error"

text \<open>
  \<^verbatim>\<open>
  async signIn(email, password) {
      const { data, error } = await supabaseClient.auth.signInWithPassword({ email, password });
      return { data, error };
  }
  async signOut() {
      const { error } = await supabaseClient.auth.signOut();
      return { error };
  }
  \<close>
\<close>

definition signIn_credentials :: "val \<Rightarrow> val \<Rightarrow> val" where
  "signIn_credentials email password = Obj [(js ''email'', email), (js ''password'', password)]"

definition signIn :: "supabase_client \<Rightarrow> val \<Rightarrow> val \<Rightarrow> val completion" where
  "signIn client email password =
     and_then (auth_signInWithPassword client (signIn_credentials email password)) data_error"

definition signOut :: "supabase_client \<Rightarrow> val completion" where
  "signOut client =
     and_then (auth_signOut client) (\<lambda>answer.
     and_then (get_prop answer (js ''error'')) (\<lambda>error.
     Inr (Obj [(js ''error'', error)])))"

text \<open>
  \<^verbatim>\<open>
  async resetPassword(email) {
      const { data, error } = await supabaseClient.auth.resetPasswordForEmail(email, {
          redirectTo: `${window.location.origin}/reset-password.html`
      });
      return { data, error };
  }
  async updatePassword(newPassword) {
      const { data, error } = await supabaseClient.auth.updateUser({ password: newPassword });
      return { data, error };
  }
  async isAuthenticated() {
      const session = await this.getSession();
      return !!session;
  }
  \<close>
\<close>

definition resetPassword_options :: "js_string \<Rightarrow> val" where
  "resetPassword_options origin =
     Obj [(js ''redirectTo'', Str (origin @ js ''/reset-password.html''))]"

definition resetPassword :: "supabase_client \<Rightarrow> js_string \<Rightarrow> val \<Rightarrow> val completion" where
  "resetPassword client origin email =
     and_then (auth_resetPasswordForEmail client email (resetPassword_options origin)) data_error"

definition updatePassword :: "supabase_client \<Rightarrow> val \<Rightarrow> val completion" where
  "updatePassword client newPassword =
     and_then (auth_updateUser client (Obj [(js ''password'', newPassword)])) data_error"

definition isAuthenticated :: "supabase_client \<Rightarrow> val completion" where
  "isAuthenticated client =
     and_then (getSession client) (\<lambda>session. Inr (Bool (to_boolean session)))"

text \<open>
  \<^verbatim>\<open>
  async getProfile(userId) {
      const { data, error } = await supabaseClient
          .from('profiles').select('*').eq('id', userId).single();
      return { data, error };
  }
  async updateProfile(userId, updates) {
      const { data, error } = await supabaseClient
          .from('profiles')
          .upsert({ id: userId, ...updates, updated_at: new Date().toISOString() });
      return { data, error };
  }
  \<close>
  In the object literal a later property replaces an earlier one of the same name, and
  the spread copies the own properties of \<^verbatim>\<open>updates\<close> (none for \<^verbatim>\<open>undefined\<close>,
  \<^verbatim>\<open>null\<close>, a boolean or a number; the indexed elements for an array or a string).
  Since the first binding of a name is the one read, later properties stand first in the
  list. \<open>now\<close> is \<^verbatim>\<open>new Date().toISOString()\<close>.
\<close>

fun own_props :: "val \<Rightarrow> (js_string \<times> val) list" where
  "own_props (Obj ps) = ps"
| "own_props (Arr xs) = map (\<lambda>i. (js (show_nat i), xs ! i)) [0..<length xs]"
| "own_props (Str s) = map (\<lambda>i. (js (show_nat i), Str [s ! i])) [0..<length s]"
| "own_props _ = []"

definition getProfile :: "supabase_client \<Rightarrow> val \<Rightarrow> val completion" where
  "getProfile client userId =
     and_then (from_select_eq_single client (js ''profiles'') (js ''*'') (js ''id'') userId)
       data_error"

definition updateProfile_row :: "js_string \<Rightarrow> val \<Rightarrow> val \<Rightarrow> val" where
  "updateProfile_row now userId updates =
     Obj ((js ''updated_at'', Str now) # own_props updates @ [(js ''id'', userId)])"

definition updateProfile :: "supabase_client \<Rightarrow> js_string \<Rightarrow> val \<Rightarrow> val \<Rightarrow> val completion" where
  "updateProfile client now userId updates =
     and_then (from_upsert client (js ''profiles'') (updateProfile_row now userId updates))
       data_error"

text \<open>
  The result pair of the specification: an object with exactly a \<^verbatim>\<open>data\<close> and an
  \<^verbatim>\<open>error\<close> slot. An answer of the client that can be destructured is any value but
  \<^verbatim>\<open>undefined\<close> and \<^verbatim>\<open>null\<close>.
\<close>

fun is_answer :: "val \<Rightarrow> bool" where
  "is_answer Undefined = False"
| "is_answer Null = False"
| "is_answer _ = True"

fun is_result_pair :: "val \<Rightarrow> bool" where
  "is_result_pair (Obj [(k, d), (k', e)]) = (k = js ''data'' \<and> k' = js ''error'')"
| "is_result_pair _ = False"

text \<open>
  A client as a visitor who is not signed in meets it while the network is down: the
  session is read from the browser and is \<^verbatim>\<open>null\<close>, the user request answers with an
  error, and the calls that need the network throw.
\<close>

definition offline_client :: supabase_client where
  "offline_client =
     \<lparr>auth_getUser =
        Inr (Obj [(js ''data'', Obj [(js ''user'', Null)]),
                  (js ''error'', Obj [(js ''message'', Str (js ''Auth session missing!''))])]),
      auth_getSession =
        Inr (Obj [(js ''data'', Obj [(js ''session'', Null)]), (js ''error'', Null)]),
      auth_signUp = (\<lambda>credentials. Inl (Thrown (Str (js ''Failed to fetch'')))),
      auth_signInWithPassword = (\<lambda>credentials. Inl (Thrown (Str (js ''Failed to fetch'')))),
      auth_signOut = Inr (Obj [(js ''error'', Null)]),
      auth_resetPasswordForEmail = (\<lambda>email options. Inl (Thrown (Str (js ''Failed to fetch'')))),
      auth_updateUser = (\<lambda>attributes. Inl (Thrown (Str (js ''Failed to fetch'')))),
      from_select_eq_single = (\<lambda>table columns column value.
        Inr (Obj [(js ''data'', Null),
                  (js ''error'', Obj [(js ''message'', Str (js ''TypeError: Failed to fetch''))])])),
      from_upsert = (\<lambda>table row. Inl (Thrown (Str (js ''Failed to fetch''))))\<rparr>"

section \<open>News widget: \<^verbatim>\<open>NewsComponent\<close>\<close>

text \<open>
  \<^verbatim>\<open>NewsComponent\<close> is one object for the page. Its state is the cache
  \<^verbatim>\<open>newsData\<close> (\<^verbatim>\<open>null\<close> at first); around it stand the document, of which the model
  keeps the \<^verbatim>\<open>innerHTML\<close> of each element by its id (\<open>None\<close>: no element has the id),
  the console, and the network, of which the model keeps the list of the URLs requested
  so far.
\<close>

datatype html =
    Markup js_string
  | Loading_html
  | Empty_html js_string
  | Error_html
  | News_html "val list" js_string

datatype console_entry =
    Container_not_found js_string
  | Component_error js_error

record news_state =
  newsData :: val
  innerHTML :: "js_string \<Rightarrow> html option"
  console :: "console_entry list"
  requests :: "js_string list"

text \<open>
  \<^verbatim>\<open>renderLoading()\<close>, \<^verbatim>\<open>renderEmpty(ticker)\<close>, \<^verbatim>\<open>renderError()\<close> and
  \<^verbatim>\<open>renderNews(items, ticker, config)\<close> return four different templates, which the
  constructors \<open>Loading_html\<close>, \<open>Empty_html\<close>, \<open>Error_html\<close> and
  \<open>News_html\<close> stand for; \<open>Markup\<close> is any other content of an element.

  \<^verbatim>\<open>config: { dataUrl: 'data/news.json', maxItems: 5 }\<close>, and
  \<^verbatim>\<open>const config = { ...this.config, ...options }\<close> for options that give a URL, a
  number of items, both or neither.
\<close>

record news_config =
  dataUrl :: js_string
  maxItems :: int

record news_options =
  opt_dataUrl :: "js_string option"
  opt_maxItems :: "int option"

definition default_config :: news_config where
  "default_config = \<lparr>dataUrl = js ''data/news.json'', maxItems = 5\<rparr>"

definition config_of :: "news_options \<Rightarrow> news_config" where
  "config_of options =
     \<lparr>dataUrl = (case opt_dataUrl options of None \<Rightarrow> dataUrl default_config | Some u \<Rightarrow> u),
      maxItems = (case opt_maxItems options of None \<Rightarrow> maxItems default_config | Some n \<Rightarrow> n)\<rparr>"

text \<open>
  What a request does is an input: \<^verbatim>\<open>fetch(url)\<close> is rejected, or it gives a response
  whose \<^verbatim>\<open>json()\<close> is rejected (the body is not JSON), or the body parses to a value.
\<close>

datatype fetch_result =
    Fetch_rejected js_error
  | Json_rejected js_error
  | Json_resolved val

text \<open>
  \<^verbatim>\<open>
  if (!this.newsData) {
      const response = await fetch(config.dataUrl);
      this.newsData = await response.json();
  }
  \<close>
  The result is the exception thrown, if any, and the state then.
\<close>

definition load_news ::
  "(js_string \<Rightarrow> fetch_result) \<Rightarrow> js_string \<Rightarrow> news_state \<Rightarrow> js_error option \<times> news_state" where
  "load_news fetch url s =
     (if to_boolean (newsData s) then (None, s)
      else
        (let s' = s\<lparr>requests := requests s @ [url]\<rparr> in
         case fetch url of
           Fetch_rejected e \<Rightarrow> (Some e, s')
         | Json_rejected e \<Rightarrow> (Some e, s')
         | Json_resolved v \<Rightarrow> (None, s'\<lparr>newsData := v\<rparr>)))"

text \<open>
  \<^verbatim>\<open>this.newsData.by_ticker?.[ticker] || []\<close>: the optional chain gives
  \<^verbatim>\<open>undefined\<close> when \<^verbatim>\<open>by_ticker\<close> is \<^verbatim>\<open>undefined\<close> or \<^verbatim>\<open>null\<close>.
\<close>

definition ticker_news :: "val \<Rightarrow> js_string \<Rightarrow> val completion" where
  "ticker_news data ticker =
     and_then (get_prop data (js ''by_ticker'')) (\<lambda>by_ticker.
     and_then (if is_answer by_ticker then get_prop by_ticker ticker else Inr Undefined) (\<lambda>found.
     Inr (if to_boolean found then found else Arr [])))"

text \<open>
  \<^verbatim>\<open>xs.slice(0, n)\<close> on the elements of an array or the code units of a string: a
  negative \<open>n\<close> counts from the end. Other values have no \<^verbatim>\<open>slice\<close>.
\<close>

definition slice_to :: "int \<Rightarrow> 'a list \<Rightarrow> 'a list" where
  "slice_to n xs = (if n < 0 then take (nat (int (length xs) + n)) xs else take (nat n) xs)"

fun js_slice :: "val \<Rightarrow> int \<Rightarrow> val completion" where
  "js_slice (Arr xs) n = Inr (Arr (slice_to n xs))"
| "js_slice (Str s) n = Inr (Str (slice_to n s))"
| "js_slice _ n = Inl TypeError"

text \<open>
  \<^verbatim>\<open>renderNews\<close> maps over the items, so they must be an array. For each item it reads
  properties of the item (which throws for \<^verbatim>\<open>null\<close>), calls
  \<^verbatim>\<open>item.categories?.includes(...)\<close>, which only an array, a string, \<^verbatim>\<open>undefined\<close>
  and \<^verbatim>\<open>null\<close> allow, and \<^verbatim>\<open>(item.tags || []).slice(0, 2).map(...)\<close>, which only an
  array and the values that count as false allow.
\<close>

fun includes_allowed :: "val \<Rightarrow> bool" where
  "includes_allowed Undefined = True"
| "includes_allowed Null = True"
| "includes_allowed (Arr xs) = True"
| "includes_allowed (Str s) = True"
| "includes_allowed _ = False"

fun tags_allowed :: "val \<Rightarrow> bool" where
  "tags_allowed (Arr xs) = True"
| "tags_allowed v = (\<not> to_boolean v)"

definition item_renders :: "val \<Rightarrow> bool" where
  "item_renders item \<longleftrightarrow>
     (case get_prop item (js ''categories'') of
        Inl e \<Rightarrow> False
      | Inr categories \<Rightarrow>
          includes_allowed categories \<and>
          (case get_prop item (js ''tags'') of Inl e \<Rightarrow> False | Inr tags \<Rightarrow> tags_allowed tags))"

definition renderNews :: "val \<Rightarrow> js_string \<Rightarrow> html completion" where
  "renderNews items ticker =
     (case items of
        Arr xs \<Rightarrow> if list_all item_renders xs then Inr (News_html xs ticker) else Inl TypeError
      | _ \<Rightarrow> Inl TypeError)"

text \<open>
  \<^verbatim>\<open>
  if (tickerNews.length === 0) {
      container.innerHTML = this.renderEmpty(ticker);
      return;
  }
  const newsToShow = tickerNews.slice(0, config.maxItems);
  container.innerHTML = this.renderNews(newsToShow, ticker, config);
  \<close>
  as the content the container gets, or the exception thrown.
\<close>

definition render_ticker_news :: "val \<Rightarrow> js_string \<Rightarrow> news_config \<Rightarrow> html completion" where
  "render_ticker_news tickerNews ticker config =
     and_then (get_prop tickerNews (js ''length'')) (\<lambda>len.
       if len = Num 0 then Inr (Empty_html ticker)
       else and_then (js_slice tickerNews (maxItems config)) (\<lambda>newsToShow.
            renderNews newsToShow ticker))"

text \<open>
  \<^verbatim>\<open>
  async init(containerId, ticker, options = {}) {
      const container = document.getElementById(containerId);
      if (!container) {
          console.error(`NewsComponent: Container #${containerId} not found`);
          return;
      }
      const config = { ...this.config, ...options };
      container.innerHTML = this.renderLoading();
      try {
          if (!this.newsData) { ... }
          const tickerNews = this.newsData.by_ticker?.[ticker] || [];
          ...
      } catch (error) {
          console.error('NewsComponent error:', error);
          container.innerHTML = this.renderError();
      }
  }
  \<close>
  \<open>fetch\<close> is what the network does during this call.
\<close>

definition init ::
  "(js_string \<Rightarrow> fetch_result) \<Rightarrow> js_string \<Rightarrow> js_string \<Rightarrow> news_options \<Rightarrow>
   news_state \<Rightarrow> news_state" where
  "init fetch containerId ticker options s =
     (case innerHTML s containerId of
        None \<Rightarrow> s\<lparr>console := console s @ [Container_not_found containerId]\<rparr>
      | Some content \<Rightarrow>
          (let config = config_of options;
               s1 = s\<lparr>innerHTML := (innerHTML s)(containerId \<mapsto> Loading_html)\<rparr>;
               (thrown, s2) = load_news fetch (dataUrl config) s1;
               outcome =
                 (case thrown of
                    Some e \<Rightarrow> Inl e
                  | None \<Rightarrow>
                      and_then (ticker_news (newsData s2) ticker) (\<lambda>tickerNews.
                      render_ticker_news tickerNews ticker config))
           in case outcome of
                Inr content' \<Rightarrow> s2\<lparr>innerHTML := (innerHTML s2)(containerId \<mapsto> content')\<rparr>
              | Inl e \<Rightarrow>
                  s2\<lparr>console := console s2 @ [Component_error e],
                     innerHTML := (innerHTML s2)(containerId \<mapsto> Error_html)\<rparr>))"

text \<open>
  \<^verbatim>\<open>
  async getTickerNews(ticker) {
      if (!this.newsData) {
          const response = await fetch(this.config.dataUrl);
          this.newsData = await response.json();
      }
      return this.newsData.by_ticker?.[ticker] || [];
  }
  \<close>
  The result is the value returned or the exception thrown, and the state then.
\<close>

definition getTickerNews ::
  "(js_string \<Rightarrow> fetch_result) \<Rightarrow> js_string \<Rightarrow> news_state \<Rightarrow> val completion \<times> news_state" where
  "getTickerNews fetch ticker s =
     (let (thrown, s1) = load_news fetch (dataUrl default_config) s
      in (case thrown of Some e \<Rightarrow> Inl e | None \<Rightarrow> ticker_news (newsData s1) ticker, s1))"

text \<open>
  A page with one container for the widget, before anything was loaded, and a network
  that is down.
\<close>

definition fresh_page :: news_state where
  "fresh_page =
     \<lparr>newsData = Null,
      innerHTML = [js ''stock-news'' \<mapsto> Markup []],
      console = [],
      requests = []\<rparr>"

definition network_down :: "js_string \<Rightarrow> fetch_result" where
  "network_down url = Fetch_rejected TypeError"

definition not_found_page :: "js_string \<Rightarrow> fetch_result" where
  "not_found_page url = Json_rejected SyntaxError"

section \<open>The catalysts table\<close>

text \<open>
  \<^verbatim>\<open>create_catalysts_table.sql\<close> declares the table. A row is a record of its
  columns, in the order of the declaration. A column that may be NULL has an option type
  (\<open>None\<close> is NULL); the three columns declared \<^verbatim>\<open>NOT NULL\<close> and the serial primary
  key \<^verbatim>\<open>id\<close> (here \<open>id_col\<close>) hold a value in every stored row. A \<^verbatim>\<open>DATE\<close> is a day number, a
  \<^verbatim>\<open>TIMESTAMPTZ\<close> a count of microseconds, a \<^verbatim>\<open>DECIMAL\<close> a rational.
\<close>

type_synonym date = int

record catalyst =
  id_col :: int
  ticker :: string
  catalyst_date :: date
  catalyst_event :: string
  drug_name :: "string option"
  indication :: "string option"
  company_name :: "string option"
  event_type :: "string option"
  stage :: "string option"
  is_binary :: "bool option"
  is_milestone :: "bool option"
  is_phase1 :: "bool option"
  is_initiation :: "bool option"
  is_submission :: "bool option"
  is_big_mover :: "bool option"
  mover_score :: "rat option"
  success_prob :: "rat option"
  upside_pct :: "rat option"
  downside_pct :: "rat option"
  is_orphan :: "bool option"
  is_fast_track :: "bool option"
  is_breakthrough :: "bool option"
  is_priority_review :: "bool option"
  is_accelerated :: "bool option"
  is_rmat :: "bool option"
  is_first_in_class :: "bool option"
  is_best_in_class :: "bool option"
  critical_unmet_need :: "bool option"
  cont_score :: "rat option"
  cont_rating :: "string option"
  has_crl_history :: "bool option"
  crl_count :: "int option"
  mcap_millions :: "rat option"
  short_interest_pct :: "rat option"
  source :: "string option"
  confidence :: "string option"
  is_public :: "bool option"
  created_at :: "int option"
  updated_at :: "int option"

text \<open>
  The row that \<^verbatim>\<open>INSERT INTO catalysts (id, ticker, catalyst_date, catalyst_event,
  is_public) VALUES (...)\<close> stores: the columns left out take the defaults of the
  declaration (\<^verbatim>\<open>DEFAULT true\<close> for \<^verbatim>\<open>is_binary\<close>, \<^verbatim>\<open>DEFAULT false\<close> for the other
  flags, 0 for \<^verbatim>\<open>crl_count\<close>, \<^verbatim>\<open>'BPIQ'\<close>, \<^verbatim>\<open>'high'\<close>, \<^verbatim>\<open>NOW()\<close> for the two
  timestamps) and NULL where there is none.
\<close>

definition catalyst_with_defaults ::
  "int \<Rightarrow> int \<Rightarrow> string \<Rightarrow> date \<Rightarrow> string \<Rightarrow> bool option \<Rightarrow> catalyst" where
  "catalyst_with_defaults now i t d e p =
     \<lparr>catalyst.id_col = i, ticker = t, catalyst_date = d, catalyst_event = e,
      drug_name = None, indication = None, company_name = None, event_type = None,
      stage = None,
      is_binary = Some True, is_milestone = Some False, is_phase1 = Some False,
      is_initiation = Some False, is_submission = Some False, is_big_mover = Some False,
      mover_score = None, success_prob = None, upside_pct = None, downside_pct = None,
      is_orphan = Some False, is_fast_track = Some False, is_breakthrough = Some False,
      is_priority_review = Some False, is_accelerated = Some False, is_rmat = Some False,
      is_first_in_class = Some False, is_best_in_class = Some False,
      critical_unmet_need = Some False,
      cont_score = None, cont_rating = None,
      has_crl_history = Some False, crl_count = Some 0,
      mcap_millions = None, short_interest_pct = None,
      source = Some ''BPIQ'', confidence = Some ''high'', is_public = p,
      created_at = Some now, updated_at = Some now\<rparr>"

section \<open>Row-level security on catalysts\<close>

text \<open>
  A condition of SQL has three values; \<open>None\<close> is NULL (unknown). \<^verbatim>\<open>a = b\<close> is NULL
  as soon as one side is.
\<close>

definition sql_eq :: "'a option \<Rightarrow> 'a option \<Rightarrow> bool option" where
  "sql_eq a b = (case a of None \<Rightarrow> None | Some x \<Rightarrow> (case b of None \<Rightarrow> None | Some y \<Rightarrow> Some (x = y)))"

text \<open>
  The roles a request to the hosted database runs as, and the commands a policy can be
  written for.
\<close>

datatype role = Anon | Authenticated | Service_role

datatype command = Select_cmd | Insert_cmd | Update_cmd | Delete_cmd

text \<open>
  \<^verbatim>\<open>CREATE POLICY name ON table FOR command TO roles USING (condition) WITH CHECK
  (condition)\<close>. \<open>for_command = None\<close> is \<^verbatim>\<open>FOR ALL\<close>; \<open>to_roles = None\<close> is a policy
  without \<^verbatim>\<open>TO\<close>, which is for \<^verbatim>\<open>PUBLIC\<close>, every role.
\<close>

record 'r policy =
  policy_name :: string
  for_command :: "command option"
  to_roles :: "role list option"
  using_expr :: "('r \<Rightarrow> bool option) option"
  with_check :: "('r \<Rightarrow> bool option) option"

text \<open>
  \<^verbatim>\<open>
  ALTER TABLE catalysts ENABLE ROW LEVEL SECURITY;

  CREATE POLICY "Public catalysts are viewable by everyone"
  ON catalysts FOR SELECT
  USING (is_public = true);

  CREATE POLICY "Authenticated users can view all catalysts"
  ON catalysts FOR SELECT
  TO authenticated
  USING (true);

  CREATE POLICY "Service role can manage catalysts"
  ON catalysts FOR ALL
  TO service_role
  USING (true)
  WITH CHECK (true);
  \<close>
\<close>

definition catalysts_policies :: "catalyst policy list" where
  "catalysts_policies =
     [\<lparr>policy_name = ''Public catalysts are viewable by everyone'',
       for_command = Some Select_cmd,
       to_roles = None,
       using_expr = Some (\<lambda>r. sql_eq (catalyst.is_public r) (Some True)),
       with_check = None\<rparr>,
      \<lparr>policy_name = ''Authenticated users can view all catalysts'',
       for_command = Some Select_cmd,
       to_roles = Some [Authenticated],
       using_expr = Some (\<lambda>r. Some True),
       with_check = None\<rparr>,
      \<lparr>policy_name = ''Service role can manage catalysts'',
       for_command = None,
       to_roles = Some [Service_role],
       using_expr = Some (\<lambda>r. Some True),
       with_check = Some (\<lambda>r. Some True)\<rparr>]"

text \<open>
  With row-level security enabled, a command of a role sees the rows of the table that
  some policy for that command and that role admits: the policies are permissive and are
  combined by \<^verbatim>\<open>OR\<close>, a policy admits a row when its \<^verbatim>\<open>USING\<close> condition is true
  (not false, not NULL), and with no policy that applies no row is seen. The roles of
  the two kinds of caller, \<^verbatim>\<open>anon\<close> and \<^verbatim>\<open>authenticated\<close>, do not own the table and
  do not bypass row-level security; the privilege to run \<^verbatim>\<open>SELECT\<close> on the table at
  all is granted outside these files.
\<close>

definition policy_applies :: "'r policy \<Rightarrow> role \<Rightarrow> command \<Rightarrow> bool" where
  "policy_applies p r c \<longleftrightarrow>
     (case for_command p of None \<Rightarrow> True | Some c' \<Rightarrow> c' = c)
     \<and> (case to_roles p of None \<Rightarrow> True | Some rs \<Rightarrow> r \<in> set rs)"

definition admits :: "'r policy \<Rightarrow> 'r \<Rightarrow> bool" where
  "admits p row \<longleftrightarrow> (case using_expr p of None \<Rightarrow> False | Some cond \<Rightarrow> cond row = Some True)"

definition visible :: "'r policy list \<Rightarrow> role \<Rightarrow> command \<Rightarrow> 'r \<Rightarrow> bool" where
  "visible ps r c row \<longleftrightarrow> list_ex (\<lambda>p. policy_applies p r c \<and> admits p row) ps"

text \<open>\<^verbatim>\<open>SELECT * FROM catalysts\<close> run as the given role.\<close>

definition select_catalysts :: "role \<Rightarrow> catalyst list \<Rightarrow> catalyst list" where
  "select_catalysts r rows = filter (visible catalysts_policies r Select_cmd) rows"

section \<open>The view \<^verbatim>\<open>calendar_catalysts\<close>\<close>

text \<open>
  \<^verbatim>\<open>
  CREATE OR REPLACE VIEW calendar_catalysts AS
  SELECT id, ticker, catalyst_date, ..., short_interest_pct, is_public,
      (catalyst_date - CURRENT_DATE) as days_until,
      TO_CHAR(catalyst_date, 'Mon DD, YYYY') as date_display,
      TO_CHAR(catalyst_date, 'Day') as weekday
  FROM catalysts
  WHERE catalyst_date >= CURRENT_DATE
  ORDER BY catalyst_date ASC;
  \<close>
  The view lists 35 columns of the table (all but \<^verbatim>\<open>source\<close>, \<^verbatim>\<open>confidence\<close>,
  \<^verbatim>\<open>created_at\<close> and \<^verbatim>\<open>updated_at\<close>) and three computed ones.
\<close>

record calendar_catalyst =
  id_col :: int
  ticker :: string
  catalyst_date :: date
  catalyst_event :: string
  drug_name :: "string option"
  indication :: "string option"
  company_name :: "string option"
  event_type :: "string option"
  stage :: "string option"
  is_binary :: "bool option"
  is_milestone :: "bool option"
  is_phase1 :: "bool option"
  is_initiation :: "bool option"
  is_submission :: "bool option"
  is_big_mover :: "bool option"
  mover_score :: "rat option"
  success_prob :: "rat option"
  upside_pct :: "rat option"
  downside_pct :: "rat option"
  is_orphan :: "bool option"
  is_fast_track :: "bool option"
  is_breakthrough :: "bool option"
  is_priority_review :: "bool option"
  is_accelerated :: "bool option"
  is_rmat :: "bool option"
  is_first_in_class :: "bool option"
  is_best_in_class :: "bool option"
  critical_unmet_need :: "bool option"
  cont_score :: "rat option"
  cont_rating :: "string option"
  has_crl_history :: "bool option"
  crl_count :: "int option"
  mcap_millions :: "rat option"
  short_interest_pct :: "rat option"
  is_public :: "bool option"
  days_until :: int
  date_display :: string
  weekday :: string

text \<open>
  The select list, for one row. \<^verbatim>\<open>CURRENT_DATE\<close> is the date at which the query runs, an
  input here; the difference of two dates is a number of days. \<^verbatim>\<open>TO_CHAR\<close> is the
  database's formatting function, a parameter here.
\<close>

definition calendar_row :: "(date \<Rightarrow> string \<Rightarrow> string) \<Rightarrow> date \<Rightarrow> catalyst \<Rightarrow> calendar_catalyst" where
  "calendar_row to_char current_date r =
     \<lparr>id_col = catalyst.id_col r,
       ticker = catalyst.ticker r,
       catalyst_date = catalyst.catalyst_date r,
       catalyst_event = catalyst.catalyst_event r,
       drug_name = catalyst.drug_name r,
       indication = catalyst.indication r,
       company_name = catalyst.company_name r,
       event_type = catalyst.event_type r,
       stage = catalyst.stage r,
       is_binary = catalyst.is_binary r,
       is_milestone = catalyst.is_milestone r,
       is_phase1 = catalyst.is_phase1 r,
       is_initiation = catalyst.is_initiation r,
       is_submission = catalyst.is_submission r,
       is_big_mover = catalyst.is_big_mover r,
       mover_score = catalyst.mover_score r,
       success_prob = catalyst.success_prob r,
       upside_pct = catalyst.upside_pct r,
       downside_pct = catalyst.downside_pct r,
       is_orphan = catalyst.is_orphan r,
       is_fast_track = catalyst.is_fast_track r,
       is_breakthrough = catalyst.is_breakthrough r,
       is_priority_review = catalyst.is_priority_review r,
       is_accelerated = catalyst.is_accelerated r,
       is_rmat = catalyst.is_rmat r,
       is_first_in_class = catalyst.is_first_in_class r,
       is_best_in_class = catalyst.is_best_in_class r,
       critical_unmet_need = catalyst.critical_unmet_need r,
       cont_score = catalyst.cont_score r,
       cont_rating = catalyst.cont_rating r,
       has_crl_history = catalyst.has_crl_history r,
       crl_count = catalyst.crl_count r,
       mcap_millions = catalyst.mcap_millions r,
       short_interest_pct = catalyst.short_interest_pct r,
       is_public = catalyst.is_public r,
       days_until = catalyst.catalyst_date r - current_date,
       date_display = to_char (catalyst.catalyst_date r) ''Mon DD, YYYY'',
       weekday = to_char (catalyst.catalyst_date r) ''Day''\<rparr>"

text \<open>
  The view over a content of the table: the rows that pass the \<^verbatim>\<open>WHERE\<close> clause, in
  ascending order of \<^verbatim>\<open>catalyst_date\<close> (rows of one date in the order of the table).
\<close>

definition calendar_catalysts ::
  "(date \<Rightarrow> string \<Rightarrow> string) \<Rightarrow> date \<Rightarrow> catalyst list \<Rightarrow> calendar_catalyst list" where
  "calendar_catalysts to_char current_date rows =
     map (calendar_row to_char current_date)
       (sort_key catalyst.catalyst_date
          (filter (\<lambda>r. catalyst.catalyst_date r \<ge> current_date) rows))"

section \<open>The catalyst_research table\<close>

text \<open>
  The setup script declares \<^verbatim>\<open>catalyst_research\<close> with a serial primary key and
  \<^verbatim>\<open>UNIQUE(ticker, catalyst_date, catalyst_event)\<close> over three \<^verbatim>\<open>TEXT NOT NULL\<close>
  columns. A row is a record of its columns as they are declared (\<^verbatim>\<open>REAL\<close> as a
  rational, the flags as the integers they are declared as).
\<close>

record catalyst_research =
  id_col :: int
  ticker :: string
  catalyst_date :: string
  catalyst_event :: string
  drug_name :: "string option"
  indication :: "string option"
  mcap_millions :: "rat option"
  peak_revenue_millions :: "rat option"
  cash_runway_months :: "int option"
  has_revenue :: "int option"
  active_atm :: "int option"
  recent_shelf :: "int option"
  short_interest_pct :: "rat option"
  days_to_cover :: "rat option"
  is_breakthrough :: "int option"
  is_accelerated :: "int option"
  is_rmat :: "int option"
  is_fast_track :: "int option"
  is_priority_review :: "int option"
  is_orphan :: "int option"
  is_first_in_class :: "int option"
  is_best_in_class :: "int option"
  is_me_too :: "int option"
  competitors_approved :: "int option"
  insider_signal :: "string option"
  management_record :: "string option"
  prior_results :: "string option"
  biomarker_selected :: "int option"
  critical_unmet_need :: "int option"
  single_indication_only :: "int option"
  incremental_improvement :: "int option"
  market_skepticism :: "int option"
  options_activity :: "string option"
  price_change_60d_pct :: "rat option"
  data_completeness_pct :: "rat option"
  research_notes :: "string option"
  trade_analysis_json :: "string option"
  trade_analysis_date :: "string option"
  is_leap_play :: "int option"
  drug_type :: "string option"
  submission_type :: "string option"
  has_priority_review_potential :: "int option"
  estimated_nda_filing_months :: "int option"
  estimated_pdufa_date :: "string option"
  leap_notes :: "string option"
  created_at :: "int option"
  updated_at :: "int option"

text \<open>
  The row that \<^verbatim>\<open>INSERT INTO catalyst_research (id, ticker, catalyst_date,
  catalyst_event) VALUES (...)\<close> stores: the declaration's defaults (0 for the flags,
  \<^verbatim>\<open>NOW()\<close> for the timestamps) and NULL elsewhere.
\<close>

definition research_with_defaults ::
  "int \<Rightarrow> int \<Rightarrow> string \<Rightarrow> string \<Rightarrow> string \<Rightarrow> catalyst_research" where
  "research_with_defaults now i t d e =
     \<lparr>catalyst_research.id_col = i, ticker = t, catalyst_date = d,
      catalyst_event = e, drug_name = None, indication = None, mcap_millions = None,
      peak_revenue_millions = None, cash_runway_months = None, has_revenue = Some 0,
      active_atm = Some 0, recent_shelf = Some 0, short_interest_pct = None,
      days_to_cover = None, is_breakthrough = Some 0, is_accelerated = Some 0,
      is_rmat = Some 0, is_fast_track = Some 0, is_priority_review = Some 0,
      is_orphan = Some 0, is_first_in_class = Some 0, is_best_in_class = Some 0,
      is_me_too = Some 0, competitors_approved = None, insider_signal = None,
      management_record = None, prior_results = None, biomarker_selected = Some 0,
      critical_unmet_need = Some 0, single_indication_only = Some 0,
      incremental_improvement = Some 0, market_skepticism = Some 0,
      options_activity = None, price_change_60d_pct = None, data_completeness_pct = None,
      research_notes = None, trade_analysis_json = None, trade_analysis_date = None,
      is_leap_play = Some 0, drug_type = None, submission_type = None,
      has_priority_review_potential = Some 0, estimated_nda_filing_months = None,
      estimated_pdufa_date = None, leap_notes = None, created_at = Some now,
      updated_at = Some now\<rparr>"

text \<open>
  The two constraints of the table that a row can violate by what other rows hold, under
  the names PostgreSQL gives them, and the error an \<^verbatim>\<open>INSERT\<close> fails with.
\<close>

datatype research_constraint =
    Catalyst_research_pkey
  | Catalyst_research_ticker_catalyst_date_catalyst_event_key

datatype db_error = Unique_violation research_constraint

definition research_key :: "catalyst_research \<Rightarrow> string \<times> string \<times> string" where
  "research_key r =
     (catalyst_research.ticker r, catalyst_research.catalyst_date r,
      catalyst_research.catalyst_event r)"

text \<open>
  \<^verbatim>\<open>INSERT INTO catalyst_research ... VALUES (...)\<close> of one row. The candidate is the
  row with its defaults filled in (\<^verbatim>\<open>id\<close> from the sequence unless the statement gives
  one); its \<^verbatim>\<open>NOT NULL\<close> columns hold values, a statement with NULL there being
  rejected before any index is looked at. The row is entered into the primary-key index
  first and into the index of the triple second; each refuses a key it already holds.
\<close>

definition insert_catalyst_research ::
  "catalyst_research list \<Rightarrow> catalyst_research \<Rightarrow> db_error + catalyst_research list" where
  "insert_catalyst_research tbl new =
     (if list_ex (\<lambda>r. catalyst_research.id_col r = catalyst_research.id_col new) tbl
      then Inl (Unique_violation Catalyst_research_pkey)
      else if list_ex (\<lambda>r. catalyst_research.ticker r = catalyst_research.ticker new
                \<and> catalyst_research.catalyst_date r = catalyst_research.catalyst_date new
                \<and> catalyst_research.catalyst_event r = catalyst_research.catalyst_event new) tbl
      then Inl (Unique_violation Catalyst_research_ticker_catalyst_date_catalyst_event_key)
      else Inr (tbl @ [new]))"

text \<open>
  The table after the statement: a statement that fails is rolled back and leaves the
  table as it was.
\<close>

definition after_insert ::
  "catalyst_research list \<Rightarrow> catalyst_research \<Rightarrow> catalyst_research list" where
  "after_insert tbl new =
     (case insert_catalyst_research tbl new of Inl e \<Rightarrow> tbl | Inr tbl' \<Rightarrow> tbl')"

section \<open>The waitlist trigger on new accounts\<close>

text \<open>
  \<^verbatim>\<open>
  CREATE OR REPLACE FUNCTION public.handle_new_user()
  RETURNS TRIGGER AS $$
  BEGIN
      INSERT INTO public.profiles (id, email, full_name, access_status, created_at)
      VALUES (
          NEW.id,
          NEW.email,
          COALESCE(NEW.raw_user_meta_data->>'full_name', ''),
          'waitlist',
          NOW()
      )
      ON CONFLICT (id) DO NOTHING;
      RETURN NEW;
  END;
  $$ LANGUAGE plpgsql SECURITY DEFINER;

  CREATE TRIGGER on_auth_user_created
      AFTER INSERT ON auth.users
      FOR EACH ROW EXECUTE FUNCTION public.handle_new_user();
  \<close>
  \<^verbatim>\<open>NEW\<close> is the row of \<^verbatim>\<open>auth.users\<close> just inserted; the function reads three of
  its columns. The metadata is a JSON document of type \<open>'j\<close>, or NULL.
\<close>

type_synonym uuid = string

record 'j auth_user =
  id_col :: uuid
  email :: "string option"
  raw_user_meta_data :: "'j option"

text \<open>
  Modelled from the spec: the declaration of the table \<^verbatim>\<open>profiles\<close> is not among the
  files (the waitlist script only adds the column \<^verbatim>\<open>access_status VARCHAR(20) DEFAULT
  'waitlist'\<close> to it). A profile is a user record keyed by the account's id, which
  \<^verbatim>\<open>ON CONFLICT (id)\<close> requires to be unique; the trigger writes the five columns below,
  and the columns it does not write (the record's extension) take their defaults. No
  other constraint of the table is assumed.
\<close>

record profile =
  id_col :: uuid
  email :: "string option"
  full_name :: "string option"
  access_status :: "string option"
  created_at :: "int option"

text \<open>\<^verbatim>\<open>COALESCE(a, b)\<close> is the first of its arguments that is not NULL.\<close>

definition coalesce :: "'a option \<Rightarrow> 'a option \<Rightarrow> 'a option" where
  "coalesce a b = (case a of None \<Rightarrow> b | Some x \<Rightarrow> Some x)"

text \<open>
  The trigger function, as the change it makes to \<^verbatim>\<open>profiles\<close> (the row it returns is
  ignored for an \<^verbatim>\<open>AFTER\<close> trigger). \<open>field_text\<close> is the operator \<^verbatim>\<open>->>\<close>, the
  text of a field of a JSON document or NULL when there is none; like every strict
  operator it gives NULL for a NULL document. \<open>now\<close> is \<^verbatim>\<open>NOW()\<close> and \<open>defaults\<close>
  the default values of the columns not written. With \<^verbatim>\<open>ON CONFLICT (id) DO NOTHING\<close>
  the row is not inserted when a row with its id is there.
\<close>

definition new_profile ::
  "('j \<Rightarrow> string \<Rightarrow> string option) \<Rightarrow> int \<Rightarrow> 'd \<Rightarrow> 'j auth_user \<Rightarrow> 'd profile_scheme" where
  "new_profile field_text now defaults new =
     \<lparr>profile.id_col = auth_user.id_col new,
      email = auth_user.email new,
      full_name =
        coalesce
          (case raw_user_meta_data new of None \<Rightarrow> None | Some j \<Rightarrow> field_text j ''full_name'')
          (Some []),
      access_status = Some ''waitlist'',
      created_at = Some now,
      \<dots> = defaults\<rparr>"

definition handle_new_user ::
  "('j \<Rightarrow> string \<Rightarrow> string option) \<Rightarrow> int \<Rightarrow> 'd \<Rightarrow> 'j auth_user \<Rightarrow>
   'd profile_scheme list \<Rightarrow> 'd profile_scheme list" where
  "handle_new_user field_text now defaults new profiles =
     (if list_ex (\<lambda>p. profile.id_col p = auth_user.id_col new) profiles then profiles
      else profiles @ [new_profile field_text now defaults new])"

text \<open>
  The trigger fires once for each inserted row of \<^verbatim>\<open>auth.users\<close>; a firing is the row
  together with the time of its transaction. \<open>fire_all\<close> runs the firings in order.
\<close>

definition fire_all ::
  "('j \<Rightarrow> string \<Rightarrow> string option) \<Rightarrow> 'd \<Rightarrow> 'd profile_scheme list \<Rightarrow>
   (int \<times> 'j auth_user) list \<Rightarrow> 'd profile_scheme list" where
  "fire_all field_text defaults profiles firings =
     foldl (\<lambda>tbl (now, new). handle_new_user field_text now defaults new tbl) profiles firings"

chapter \<open>Properties\<close>

section \<open>Strings and numerals\<close>

declare show_nat.simps [simp del]

lemma js_inject [simp]: "js a = js b \<longleftrightarrow> a = b"
proof -
  have "inj (\<lambda>c::char. (of_nat (of_char c) :: 16 word))"
  proof (rule injI)
    fix c d :: char
    assume eq: "(of_nat (of_char c) :: 16 word) = of_nat (of_char d)"
    have c: "(of_char c :: nat) < 2 ^ 16"
      by (rule less_trans [OF nat_of_char_less_256]) simp
    have d: "(of_char d :: nat) < 2 ^ 16"
      by (rule less_trans [OF nat_of_char_less_256]) simp
    from eq have "unat (of_nat (of_char c) :: 16 word) = unat (of_nat (of_char d) :: 16 word)"
      by simp
    with c d have "(of_char c :: nat) = of_char d"
      by (simp add: unat_of_nat)
    then show "c = d" by simp
  qed
  then show ?thesis
    unfolding js_def by (rule inj_map_eq_map)
qed

lemma show_nat_digit: "n < 10 \<Longrightarrow> show_nat n = [''0123456789'' ! n]"
  by (simp add: show_nat.simps)

lemma show_nat_step: "10 \<le> n \<Longrightarrow> show_nat n = show_nat (n div 10) @ [''0123456789'' ! (n mod 10)]"
  by (subst show_nat.simps) simp

lemma show_nat_not_empty: "show_nat n \<noteq> []"
  by (subst show_nat.simps) simp

lemma number_to_string_nonneg: "0 \<le> i \<Longrightarrow> number_to_string i = show_nat (nat i)"
  by (simp add: number_to_string_def)

section \<open>\<^verbatim>\<open>timeAgo\<close>\<close>

lemma timeAgo_just_now: "(now - d) div 1000 < 60 \<Longrightarrow> timeAgo now (Some d) = ''just now''"
  by (simp add: timeAgo_def)

lemma timeAgo_minutes:
  "60 \<le> (now - d) div 1000 \<Longrightarrow> (now - d) div 1000 < 3600 \<Longrightarrow>
   timeAgo now (Some d) = show_nat (nat ((now - d) div 1000 div 60)) @ ''m ago''"
  by (simp add: timeAgo_def Let_def number_to_string_def)

lemma timeAgo_hours:
  "3600 \<le> (now - d) div 1000 \<Longrightarrow> (now - d) div 1000 < 86400 \<Longrightarrow>
   timeAgo now (Some d) = show_nat (nat ((now - d) div 1000 div 3600)) @ ''h ago''"
  by (simp add: timeAgo_def Let_def number_to_string_def)

lemma timeAgo_days:
  "86400 \<le> (now - d) div 1000 \<Longrightarrow>
   timeAgo now (Some d) = show_nat (nat ((now - d) div 1000 div 86400)) @ ''d ago''"
  by (simp add: timeAgo_def Let_def number_to_string_def)

text \<open>
  Claim C7. Let the clock be less than \<open>2^53\<close> milliseconds (some 285 000 years)
  after the timestamp, the range in which the double-precision subtraction of the code is
  the subtraction of integers. With \<open>s = (now - d) div 1000\<close> the whole seconds elapsed
  between the timestamp and the clock: 90 seconds give \<^verbatim>\<open>1m ago\<close>, 7200 seconds give
  \<^verbatim>\<open>2h ago\<close>, 0 seconds give \<^verbatim>\<open>just now\<close>; in general fewer than 60 seconds give
  \<^verbatim>\<open>just now\<close>, fewer than 3600 the whole minutes \<open>s div 60\<close>, fewer than 86400 the
  whole hours \<open>s div 3600\<close>, and anything else the whole days \<open>s div 86400\<close>, the
  quotient rounded down and printed in decimal.
\<close>

theorem timeAgo_buckets:
  assumes "now - d < 2 ^ 53"
  shows
  "((now - d) div 1000 = 90 \<longrightarrow> timeAgo now (Some d) = ''1m ago'')
   \<and> ((now - d) div 1000 = 7200 \<longrightarrow> timeAgo now (Some d) = ''2h ago'')
   \<and> ((now - d) div 1000 = 0 \<longrightarrow> timeAgo now (Some d) = ''just now'')
   \<and> ((now - d) div 1000 < 60 \<longrightarrow> timeAgo now (Some d) = ''just now'')
   \<and> (60 \<le> (now - d) div 1000 \<and> (now - d) div 1000 < 3600 \<longrightarrow>
        timeAgo now (Some d) = show_nat (nat ((now - d) div 1000 div 60)) @ ''m ago'')
   \<and> (3600 \<le> (now - d) div 1000 \<and> (now - d) div 1000 < 86400 \<longrightarrow>
        timeAgo now (Some d) = show_nat (nat ((now - d) div 1000 div 3600)) @ ''h ago'')
   \<and> (86400 \<le> (now - d) div 1000 \<longrightarrow>
        timeAgo now (Some d) = show_nat (nat ((now - d) div 1000 div 86400)) @ ''d ago'')"
proof -
  have m: "timeAgo now (Some d) = ''1m ago''" if "(now - d) div 1000 = 90"
    using timeAgo_minutes [of now d] that by (simp add: show_nat_digit)
  have h: "timeAgo now (Some d) = ''2h ago''" if "(now - d) div 1000 = 7200"
    using timeAgo_hours [of now d] that by (simp add: show_nat_digit)
  have z: "timeAgo now (Some d) = ''just now''" if "(now - d) div 1000 = 0"
    using timeAgo_just_now [of now d] that by simp
  from m h z show ?thesis
    using timeAgo_just_now [of now d] timeAgo_minutes [of now d] timeAgo_hours [of now d]
      timeAgo_days [of now d]
    by blast
qed

theorem timeAgo_buckets_witness:
  "(1701123200000::int) - 1700000000000 < 2 ^ 53
   \<and> (8640000000000000::int) - (- 367199254740991) < 2 ^ 53
   \<and> timeAgo 1700000090000 (Some 1700000000000) = ''1m ago''
   \<and> timeAgo 1700007200999 (Some 1700000000000) = ''2h ago''
   \<and> timeAgo 1700000000000 (Some 1700000000000) = ''just now''
   \<and> timeAgo 1700000059999 (Some 1700000000000) = ''just now''
   \<and> timeAgo 1700003599999 (Some 1700000000000) = ''59m ago''
   \<and> timeAgo 1700086399999 (Some 1700000000000) = ''23h ago''
   \<and> timeAgo 1701123200000 (Some 1700000000000) = ''13d ago''
   \<and> timeAgo 8640000000000000 (Some (- 367199254740991)) = ''104249991d ago''"
proof -
  have b: "(1701123200000::int) - 1700000000000 < 2 ^ 53"
    by simp
  have b': "(8640000000000000::int) - (- 367199254740991) < 2 ^ 53"
    by simp
  have r0: "timeAgo 1700000090000 (Some 1700000000000) = ''1m ago''"
    using timeAgo_buckets [of 1700000090000 "1700000000000"]
    by simp
  have r1: "timeAgo 1700007200999 (Some 1700000000000) = ''2h ago''"
    using timeAgo_buckets [of 1700007200999 "1700000000000"]
    by simp
  have r2: "timeAgo 1700000000000 (Some 1700000000000) = ''just now''"
    using timeAgo_buckets [of 1700000000000 "1700000000000"]
    by simp
  have r3: "timeAgo 1700000059999 (Some 1700000000000) = ''just now''"
    using timeAgo_buckets [of 1700000059999 "1700000000000"]
    by simp
  have r4: "timeAgo 1700003599999 (Some 1700000000000) = ''59m ago''"
    using timeAgo_buckets [of 1700003599999 "1700000000000"]
    by simp (simp add: show_nat_step show_nat_digit)
  have r5: "timeAgo 1700086399999 (Some 1700000000000) = ''23h ago''"
    using timeAgo_buckets [of 1700086399999 "1700000000000"]
    by simp (simp add: show_nat_step show_nat_digit)
  have r6: "timeAgo 1701123200000 (Some 1700000000000) = ''13d ago''"
    using timeAgo_buckets [of 1701123200000 "1700000000000"]
    by simp (simp add: show_nat_step show_nat_digit)
  have r7: "timeAgo 8640000000000000 (Some (- 367199254740991)) = ''104249991d ago''"
    using timeAgo_buckets [of 8640000000000000 "- 367199254740991"]
    by simp (simp add: show_nat_step show_nat_digit)
  from b b' r0 r1 r2 r3 r4 r5 r6 r7 show ?thesis
    by (intro conjI)
qed

text \<open>
  Claim C9. A timestamp strictly after the clock gives a negative number of elapsed
  seconds, which is below 60: \<^verbatim>\<open>timeAgo\<close> answers \<^verbatim>\<open>just now\<close>, and so no numeral
  with a minus sign is ever printed for it.
\<close>

theorem timeAgo_future: "now < d \<Longrightarrow> timeAgo now (Some d) = ''just now''"
proof -
  assume "now < d"
  then have "(now - d) div 1000 < 0"
    by (simp add: div_neg_pos_less0)
  then show ?thesis
    by (simp add: timeAgo_def)
qed

theorem timeAgo_future_witness:
  "(1700000000000::int) < 1700000000500
   \<and> timeAgo 1700000000000 (Some 1700000000500) = ''just now''
   \<and> timeAgo 1700000000000 (Some 1800000000000) = ''just now''"
  using timeAgo_future [of 1700000000000 1700000000500]
    timeAgo_future [of 1700000000000 1800000000000]
  by simp

section \<open>\<^verbatim>\<open>isValidEmail\<close>\<close>

lemma atom_plain [simp]: "atom_matches not_space_or_at = plain_unit"
  by (rule ext) (auto simp: not_space_or_at_def plain_unit_def)

lemma matches_once:
  "matches (Atom a Once # ts) pos rest \<longleftrightarrow>
     (\<exists>c cs. rest = c # cs \<and> atom_matches a c \<and> matches ts (Suc pos) cs)"
  by (cases rest) auto

lemma matches_plus:
  "matches (Atom a One_or_more # ts) pos rest \<longleftrightarrow>
     (\<exists>u v. rest = u @ v \<and> u \<noteq> [] \<and> list_all (atom_matches a) u
        \<and> matches ts (pos + length u) v)"
proof (induction rest arbitrary: pos)
  case Nil
  then show ?case by simp
next
  case (Cons c cs)
  show ?case
  proof
    assume "matches (Atom a One_or_more # ts) pos (c # cs)"
    then have c: "atom_matches a c"
      and alt: "matches (Atom a One_or_more # ts) (Suc pos) cs \<or> matches ts (Suc pos) cs"
      by simp_all
    from alt show "\<exists>u v. c # cs = u @ v \<and> u \<noteq> [] \<and> list_all (atom_matches a) u
        \<and> matches ts (pos + length u) v"
    proof
      assume "matches (Atom a One_or_more # ts) (Suc pos) cs"
      then obtain u v where "cs = u @ v" "u \<noteq> []" "list_all (atom_matches a) u"
        "matches ts (Suc pos + length u) v"
        using Cons.IH [of "Suc pos"] by blast
      with c show ?thesis
        by (intro exI [of _ "c # u"] exI [of _ v]) simp
    next
      assume "matches ts (Suc pos) cs"
      with c show ?thesis
        by (intro exI [of _ "[c]"] exI [of _ cs]) simp
    qed
  next
    assume "\<exists>u v. c # cs = u @ v \<and> u \<noteq> [] \<and> list_all (atom_matches a) u
        \<and> matches ts (pos + length u) v"
    then obtain u v where uv: "c # cs = u @ v" "u \<noteq> []" "list_all (atom_matches a) u"
        "matches ts (pos + length u) v"
      by blast
    then obtain u' where u: "u = c # u'" and cs: "cs = u' @ v"
      by (cases u) auto
    show "matches (Atom a One_or_more # ts) pos (c # cs)"
    proof (cases "u' = []")
      case True
      with uv u cs show ?thesis by simp
    next
      case False
      with uv u cs have "matches (Atom a One_or_more # ts) (Suc pos) cs"
        using Cons.IH [of "Suc pos"] by auto
      with uv u show ?thesis by simp
    qed
  qed
qed

lemma regex_test_anchored:
  "regex_test (Assert_start # ts) s \<longleftrightarrow> matches ts 0 s"
proof -
  have "regex_test (Assert_start # ts) s \<longleftrightarrow> (\<exists>i\<in>set [0..<Suc (length s)]. i = 0 \<and> matches ts i (drop i s))"
    by (simp add: regex_test_def list_ex_iff del: upt_Suc)
  also have "\<dots> \<longleftrightarrow> matches ts 0 s"
    by auto
  finally show ?thesis .
qed

lemma tail1:
  "matches [Atom not_space_or_at One_or_more, Assert_end] pos r \<longleftrightarrow>
     r \<noteq> [] \<and> list_all plain_unit r"
  by (auto simp: matches_plus)

lemma tail2:
  "matches [Atom (Pattern_char 0x2E) Once, Atom not_space_or_at One_or_more, Assert_end] pos r \<longleftrightarrow>
     (\<exists>t. r = 0x2E # t \<and> t \<noteq> [] \<and> list_all plain_unit t)"
  by (auto simp: matches_once tail1)

lemma tail3:
  "matches [Atom not_space_or_at One_or_more, Atom (Pattern_char 0x2E) Once,
            Atom not_space_or_at One_or_more, Assert_end] pos r \<longleftrightarrow>
     (\<exists>d t. r = d @ [0x2E] @ t \<and> d \<noteq> [] \<and> list_all plain_unit d
        \<and> t \<noteq> [] \<and> list_all plain_unit t)"
  by (simp add: matches_plus tail2) blast

lemma tail4:
  "matches [Atom (Pattern_char 0x40) Once, Atom not_space_or_at One_or_more,
            Atom (Pattern_char 0x2E) Once, Atom not_space_or_at One_or_more, Assert_end] pos r \<longleftrightarrow>
     (\<exists>d t. r = [0x40] @ d @ [0x2E] @ t \<and> d \<noteq> [] \<and> list_all plain_unit d
        \<and> t \<noteq> [] \<and> list_all plain_unit t)"
  by (simp add: matches_once tail3) blast

text \<open>
  Claim C5. For every string \<open>s\<close>, \<^verbatim>\<open>isValidEmail(s)\<close> is true exactly when \<open>s\<close>
  matches \<^verbatim>\<open>^[^\s@]+@[^\s@]+\.[^\s@]+$\<close>: the backtracking matcher run by
  \<^verbatim>\<open>test\<close> accepts the language written out in \<open>matches_email_pattern\<close>.
\<close>

theorem isValidEmail_regex: "isValidEmail s \<longleftrightarrow> matches_email_pattern s"
  unfolding isValidEmail_def emailRegex_def regex_test_anchored matches_email_pattern_def
  by (simp add: matches_plus tail4) blast

theorem isValidEmail_regex_witness:
  "matches_email_pattern (js ''ann@example.com'')
   \<and> matches_email_pattern (js ''a@b..c'')
   \<and> \<not> matches_email_pattern (js ''ann.example.com'')
   \<and> \<not> matches_email_pattern (js ''ann@example'')
   \<and> \<not> matches_email_pattern (js ''@example.com'')
   \<and> \<not> matches_email_pattern (js ''an n@example.com'')
   \<and> \<not> matches_email_pattern (js ''ann@@example.com'')
   \<and> \<not> matches_email_pattern [0x61, 0x40, 0x62, 0x2E, 0x63, 0x3000]
   \<and> \<not> matches_email_pattern []"
proof -
  have "isValidEmail (js ''ann@example.com'')"
    by code_simp
  then have m0: "matches_email_pattern (js ''ann@example.com'')"
    using isValidEmail_regex [of "js ''ann@example.com''"] by simp
  have "isValidEmail (js ''a@b..c'')"
    by code_simp
  then have m1: "matches_email_pattern (js ''a@b..c'')"
    using isValidEmail_regex [of "js ''a@b..c''"] by simp
  have "\<not> isValidEmail (js ''ann.example.com'')"
    by code_simp
  then have m2: "\<not> matches_email_pattern (js ''ann.example.com'')"
    using isValidEmail_regex [of "js ''ann.example.com''"] by simp
  have "\<not> isValidEmail (js ''ann@example'')"
    by code_simp
  then have m3: "\<not> matches_email_pattern (js ''ann@example'')"
    using isValidEmail_regex [of "js ''ann@example''"] by simp
  have "\<not> isValidEmail (js ''@example.com'')"
    by code_simp
  then have m4: "\<not> matches_email_pattern (js ''@example.com'')"
    using isValidEmail_regex [of "js ''@example.com''"] by simp
  have "\<not> isValidEmail (js ''an n@example.com'')"
    by code_simp
  then have m5: "\<not> matches_email_pattern (js ''an n@example.com'')"
    using isValidEmail_regex [of "js ''an n@example.com''"] by simp
  have "\<not> isValidEmail (js ''ann@@example.com'')"
    by code_simp
  then have m6: "\<not> matches_email_pattern (js ''ann@@example.com'')"
    using isValidEmail_regex [of "js ''ann@@example.com''"] by simp
  have "\<not> isValidEmail [0x61, 0x40, 0x62, 0x2E, 0x63, 0x3000]"
    by code_simp
  then have m7: "\<not> matches_email_pattern [0x61, 0x40, 0x62, 0x2E, 0x63, 0x3000]"
    using isValidEmail_regex [of "[0x61, 0x40, 0x62, 0x2E, 0x63, 0x3000]"] by simp
  have "\<not> isValidEmail []"
    by code_simp
  then have m8: "\<not> matches_email_pattern []"
    using isValidEmail_regex [of "[]"] by simp
  from m0 m1 m2 m3 m4 m5 m6 m7 m8 show ?thesis
    by blast
qed

section \<open>\<^verbatim>\<open>storeEmail\<close>\<close>

lemma has_email_new_entry [simp]: "has_email addr (new_entry addr src now)"
  by (simp add: has_email_def new_entry_def)

lemma is_object_new_entry [simp]: "is_object (new_entry addr src now)"
  by (simp add: new_entry_def)

lemma count_email_append [simp]:
  "count_email addr (xs @ ys) = count_email addr xs + count_email addr ys"
  by (simp add: count_email_def)

lemma count_email_new_entry [simp]: "count_email addr [new_entry addr src now] = 1"
  by (simp add: count_email_def)

lemma some_email_objects:
  "list_all is_object entries \<Longrightarrow> some_email addr entries = Inr (0 < count_email addr entries)"
proof (induction entries)
  case Nil
  then show ?case by (simp add: count_email_def)
next
  case (Cons entry entries)
  then obtain ps where "entry = Obj ps"
    by (cases entry) simp_all
  with Cons show ?case
    by (simp add: count_email_def has_email_def)
qed

lemma storeEmail_absent:
  assumes "read_waitlist storage = Inr (Arr entries)" and "list_all is_object entries"
    and "count_email addr entries = 0"
  shows "storeEmail addr src now storage =
    Inr (Some (Json (Arr (entries @ [new_entry addr src now]))))"
  using assms by (simp add: storeEmail_def some_email_objects)

lemma storeEmail_present:
  assumes "read_waitlist storage = Inr (Arr entries)" and "list_all is_object entries"
    and "0 < count_email addr entries"
  shows "storeEmail addr src now storage = Inr storage"
  using assms by (simp add: storeEmail_def some_email_objects)

lemma count_email_other_entry:
  "count_email a [new_entry addr src now] = (if a = addr then 1 else 0)"
  by (simp add: count_email_def has_email_def new_entry_def)

text \<open>
  The lists that \<^verbatim>\<open>storeEmail\<close> builds hold every email at most once: the property is
  kept by each call, and it holds of the empty storage.
\<close>

lemma storeEmail_keeps_emails_apart:
  assumes "read_waitlist storage = Inr (Arr entries)" and "list_all is_object entries"
    and "\<forall>a. count_email a entries \<le> 1"
    and "storeEmail addr src now storage = Inr storage'"
  shows "\<exists>entries'. read_waitlist storage' = Inr (Arr entries')
    \<and> list_all is_object entries' \<and> (\<forall>a. count_email a entries' \<le> 1)"
proof (cases "count_email addr entries = 0")
  case True
  with assms(1,2) have "storeEmail addr src now storage
      = Inr (Some (Json (Arr (entries @ [new_entry addr src now]))))"
    by (rule storeEmail_absent)
  with assms(4) have "storage' = Some (Json (Arr (entries @ [new_entry addr src now])))"
    by simp
  moreover have "count_email a (entries @ [new_entry addr src now]) \<le> 1" for a
    using assms(3) True by (cases "a = addr") (simp_all add: count_email_other_entry)
  ultimately show ?thesis
    using assms(2) by simp
next
  case False
  with assms(1,2) have "storeEmail addr src now storage = Inr storage"
    by (intro storeEmail_present) simp_all
  with assms show ?thesis
    by auto
qed

lemma read_waitlist_present:
  assumes "read_waitlist storage = Inr (Arr entries)" and "entries \<noteq> []"
  shows "storage = Some (Json (Arr entries))"
  using assms by (cases storage rule: read_waitlist.cases) simp_all

text \<open>
  Claim C6, as the code has it. Start from a stored waitlist list (local storage holds
  nothing, or an array of objects) and call \<^verbatim>\<open>storeEmail\<close> twice with the same email
  string, whatever the two sources and clock readings. Both calls succeed; the second
  call leaves the storage exactly as the first call left it; the number of entries with
  that email is then the number there was at the start, or one when there was none. So
  a list that held at most one entry with the email ends with exactly one. Entries are
  never removed: a list that already held the email several times keeps them all.
\<close>

theorem storeEmail_twice:
  assumes "read_waitlist storage = Inr (Arr entries)" and "list_all is_object entries"
  shows "\<exists>stored.
     storeEmail addr src1 now1 storage = Inr (Some (Json (Arr stored)))
     \<and> storeEmail addr src2 now2 (Some (Json (Arr stored))) = Inr (Some (Json (Arr stored)))
     \<and> count_email addr stored = max 1 (count_email addr entries)
     \<and> (count_email addr entries \<le> 1 \<longrightarrow> count_email addr stored = 1)"
proof (cases "count_email addr entries = 0")
  case True
  let ?stored = "entries @ [new_entry addr src1 now1]"
  have 1: "storeEmail addr src1 now1 storage = Inr (Some (Json (Arr ?stored)))"
    using assms True by (rule storeEmail_absent)
  have "list_all is_object ?stored"
    using assms(2) by simp
  moreover have c: "count_email addr ?stored = 1"
    using True by simp
  ultimately have 2: "storeEmail addr src2 now2 (Some (Json (Arr ?stored))) = Inr (Some (Json (Arr ?stored)))"
    by (intro storeEmail_present [of _ ?stored]) simp_all
  from 1 2 c True show ?thesis
    by (intro exI [of _ ?stored]) simp
next
  case False
  then have pos: "0 < count_email addr entries" by simp
  then have "entries \<noteq> []"
    by (auto simp: count_email_def)
  with assms(1) have st: "storage = Some (Json (Arr entries))"
    by (rule read_waitlist_present)
  have 1: "storeEmail addr src1 now1 storage = Inr storage"
    using assms pos by (rule storeEmail_present)
  have 2: "storeEmail addr src2 now2 storage = Inr storage"
    using assms pos by (rule storeEmail_present)
  from 1 2 st pos show ?thesis
    by (intro exI [of _ entries]) auto
qed

theorem storeEmail_twice_witness:
  "read_waitlist None = Inr (Arr []) \<and> list_all is_object []
   \<and> (\<exists>stored.
        storeEmail (js ''ann@example.com'') (js ''hero'') (js ''2026-01-01T00:00:00.000Z'') None
          = Inr (Some (Json (Arr stored)))
        \<and> storeEmail (js ''ann@example.com'') (js ''footer'') (js ''2026-01-02T00:00:00.000Z'')
            (Some (Json (Arr stored))) = Inr (Some (Json (Arr stored)))
        \<and> count_email (js ''ann@example.com'') stored = 1)"
proof -
  have r: "read_waitlist None = Inr (Arr [])" and o: "list_all is_object []"
    by simp_all
  have z: "count_email (js ''ann@example.com'') [] = 0"
    by (simp add: count_email_def)
  from storeEmail_twice [OF r o, of "js ''ann@example.com''" "js ''hero''"
      "js ''2026-01-01T00:00:00.000Z''" "js ''footer''" "js ''2026-01-02T00:00:00.000Z''"]
  obtain stored where
    "storeEmail (js ''ann@example.com'') (js ''hero'') (js ''2026-01-01T00:00:00.000Z'') None
       = Inr (Some (Json (Arr stored)))"
    "storeEmail (js ''ann@example.com'') (js ''footer'') (js ''2026-01-02T00:00:00.000Z'')
       (Some (Json (Arr stored))) = Inr (Some (Json (Arr stored)))"
    "count_email (js ''ann@example.com'') stored = 1"
    unfolding z by auto
  with r o show ?thesis by blast
qed

text \<open>
  The claim as written speaks of any stored list and of exactly one entry afterwards.
  A stored list that already holds the email twice is left as it is by both calls, with
  two entries for the email.
\<close>

theorem storeEmail_twice_counterexample:
  "storeEmail (js ''ann@example.com'') (js ''hero'') (js ''2026-01-03T00:00:00.000Z'')
     (Some (Json (Arr [new_entry (js ''ann@example.com'') (js ''hero'') (js ''2026-01-01T00:00:00.000Z''),
                       new_entry (js ''ann@example.com'') (js ''footer'') (js ''2026-01-02T00:00:00.000Z'')])))
   = Inr (Some (Json (Arr [new_entry (js ''ann@example.com'') (js ''hero'') (js ''2026-01-01T00:00:00.000Z''),
                       new_entry (js ''ann@example.com'') (js ''footer'') (js ''2026-01-02T00:00:00.000Z'')])))
   \<and> storeEmail (js ''ann@example.com'') (js ''hero'') (js ''2026-01-04T00:00:00.000Z'')
     (Some (Json (Arr [new_entry (js ''ann@example.com'') (js ''hero'') (js ''2026-01-01T00:00:00.000Z''),
                       new_entry (js ''ann@example.com'') (js ''footer'') (js ''2026-01-02T00:00:00.000Z'')])))
   = Inr (Some (Json (Arr [new_entry (js ''ann@example.com'') (js ''hero'') (js ''2026-01-01T00:00:00.000Z''),
                       new_entry (js ''ann@example.com'') (js ''footer'') (js ''2026-01-02T00:00:00.000Z'')])))
   \<and> count_email (js ''ann@example.com'')
                      [new_entry (js ''ann@example.com'') (js ''hero'') (js ''2026-01-01T00:00:00.000Z''),
                       new_entry (js ''ann@example.com'') (js ''footer'') (js ''2026-01-02T00:00:00.000Z'')] = 2"
  by (simp add: storeEmail_def new_entry_def count_email_def has_email_def)

section \<open>Row-level security on catalysts\<close>

lemma visible_anon:
  "visible catalysts_policies Anon Select_cmd = (\<lambda>row. catalyst.is_public row = Some True)"
proof (rule ext)
  fix row :: catalyst
  show "visible catalysts_policies Anon Select_cmd row \<longleftrightarrow> catalyst.is_public row = Some True"
    by (cases "catalyst.is_public row")
      (simp_all add: visible_def catalysts_policies_def policy_applies_def admits_def sql_eq_def)
qed

lemma visible_authenticated:
  "visible catalysts_policies Authenticated Select_cmd = (\<lambda>row. True)"
  by (rule ext) (simp add: visible_def catalysts_policies_def policy_applies_def admits_def)

text \<open>
  Claim C1. For one content of the catalysts table, \<^verbatim>\<open>SELECT\<close> as the anonymous role
  returns exactly the rows whose \<^verbatim>\<open>is_public\<close> is true (a row with NULL there is not
  returned), and \<^verbatim>\<open>SELECT\<close> as the authenticated role returns every row.
\<close>

theorem catalysts_select_by_role:
  "select_catalysts Anon rows = filter (\<lambda>r. catalyst.is_public r = Some True) rows
   \<and> select_catalysts Authenticated rows = rows"
  by (simp add: select_catalysts_def visible_anon visible_authenticated)

lemma is_public_default [simp]: "catalyst.is_public (catalyst_with_defaults now i t d e p) = p"
  by (simp add: catalyst_with_defaults_def)

lemma catalyst_date_default [simp]: "catalyst.catalyst_date (catalyst_with_defaults now i t d e p) = d"
  by (simp add: catalyst_with_defaults_def)

theorem catalysts_select_by_role_witness:
  "select_catalysts Anon
     [catalyst_with_defaults 0 1 ''ABCD'' 20500 ''PDUFA'' (Some True),
      catalyst_with_defaults 0 2 ''EFGH'' 20510 ''Phase 3 readout'' (Some False),
      catalyst_with_defaults 0 3 ''IJKL'' 20520 ''Advisory committee'' None]
   = [catalyst_with_defaults 0 1 ''ABCD'' 20500 ''PDUFA'' (Some True)]
   \<and> select_catalysts Authenticated
     [catalyst_with_defaults 0 1 ''ABCD'' 20500 ''PDUFA'' (Some True),
      catalyst_with_defaults 0 2 ''EFGH'' 20510 ''Phase 3 readout'' (Some False),
      catalyst_with_defaults 0 3 ''IJKL'' 20520 ''Advisory committee'' None]
   = [catalyst_with_defaults 0 1 ''ABCD'' 20500 ''PDUFA'' (Some True),
      catalyst_with_defaults 0 2 ''EFGH'' 20510 ''Phase 3 readout'' (Some False),
      catalyst_with_defaults 0 3 ''IJKL'' 20520 ''Advisory committee'' None]"
  using catalysts_select_by_role [of
     "[catalyst_with_defaults 0 1 ''ABCD'' 20500 ''PDUFA'' (Some True),
      catalyst_with_defaults 0 2 ''EFGH'' 20510 ''Phase 3 readout'' (Some False),
      catalyst_with_defaults 0 3 ''IJKL'' 20520 ''Advisory committee'' None]"]
  by simp

section \<open>The view \<^verbatim>\<open>calendar_catalysts\<close>\<close>

lemma calendar_row_date [simp]:
  "calendar_catalyst.catalyst_date (calendar_row to_char today r) = catalyst.catalyst_date r"
  by (simp add: calendar_row_def)

lemma calendar_row_days_until [simp]:
  "days_until (calendar_row to_char today r) = catalyst.catalyst_date r - today"
  by (simp add: calendar_row_def)

lemma set_calendar_catalysts:
  "set (calendar_catalysts to_char today rows) =
     calendar_row to_char today ` {r \<in> set rows. today \<le> catalyst.catalyst_date r}"
  by (simp add: calendar_catalysts_def)

text \<open>
  Claim C2. Whatever the table holds and whatever the current date is, no row of the view
  \<^verbatim>\<open>calendar_catalysts\<close> has a \<^verbatim>\<open>catalyst_date\<close> strictly before the current date.
\<close>

theorem calendar_never_past:
  "\<forall>v \<in> set (calendar_catalysts to_char today rows). \<not> calendar_catalyst.catalyst_date v < today"
  by (auto simp: set_calendar_catalysts)

lemma calendar_sorted:
  "sorted (map calendar_catalyst.catalyst_date (calendar_catalysts to_char today rows))"
proof -
  have "map calendar_catalyst.catalyst_date (calendar_catalysts to_char today rows)
    = map catalyst.catalyst_date (sort_key catalyst.catalyst_date
          (filter (\<lambda>r. catalyst.catalyst_date r \<ge> today) rows))"
    by (simp add: calendar_catalysts_def comp_def)
  then show ?thesis by simp
qed

theorem calendar_never_past_witness:
  "map calendar_catalyst.catalyst_date
     (calendar_catalysts (\<lambda>d f. f) 20505
       [catalyst_with_defaults 0 3 ''IJKL'' 20520 ''Advisory committee'' None,
        catalyst_with_defaults 0 1 ''ABCD'' 20500 ''PDUFA'' (Some True),
        catalyst_with_defaults 0 4 ''MNOP'' 20505 ''Topline data'' (Some True),
        catalyst_with_defaults 0 2 ''EFGH'' 20510 ''Phase 3 readout'' (Some False)])
     = [20505, 20510, 20520]
   \<and> \<not> calendar_catalyst.catalyst_date
        (calendar_row (\<lambda>d f. f) 20505 (catalyst_with_defaults 0 4 ''MNOP'' 20505 ''Topline data'' (Some True)))
        < 20505"
proof -
  let ?rows = "[catalyst_with_defaults 0 3 ''IJKL'' 20520 ''Advisory committee'' None,
        catalyst_with_defaults 0 1 ''ABCD'' 20500 ''PDUFA'' (Some True),
        catalyst_with_defaults 0 4 ''MNOP'' 20505 ''Topline data'' (Some True),
        catalyst_with_defaults 0 2 ''EFGH'' 20510 ''Phase 3 readout'' (Some False)]"
  have 1: "map calendar_catalyst.catalyst_date (calendar_catalysts (\<lambda>d f. f) 20505 ?rows)
     = [20505, 20510, 20520]"
    by (simp add: calendar_catalysts_def)
  have "calendar_row (\<lambda>d f. f) 20505 (catalyst_with_defaults 0 4 ''MNOP'' 20505 ''Topline data'' (Some True))
    \<in> set (calendar_catalysts (\<lambda>d f. f) 20505 ?rows)"
    by (simp add: set_calendar_catalysts)
  with calendar_never_past [of "\<lambda>d f. f" 20505 ?rows]
  have 2: "\<not> calendar_catalyst.catalyst_date
        (calendar_row (\<lambda>d f. f) 20505 (catalyst_with_defaults 0 4 ''MNOP'' 20505 ''Topline data'' (Some True)))
        < 20505"
    by (rule bspec)
  from 1 2 show ?thesis by (rule conjI)
qed

section \<open>Uniqueness in catalyst_research\<close>

lemma insert_same_triple:
  assumes "research_key new \<in> research_key ` set tbl"
  shows "\<exists>c. insert_catalyst_research tbl new = Inl (Unique_violation c)"
proof -
  from assms obtain r where "r \<in> set tbl" and "research_key r = research_key new"
    by auto
  then have "list_ex (\<lambda>r. catalyst_research.ticker r = catalyst_research.ticker new
                \<and> catalyst_research.catalyst_date r = catalyst_research.catalyst_date new
                \<and> catalyst_research.catalyst_event r = catalyst_research.catalyst_event new) tbl"
    by (auto simp: list_ex_iff research_key_def)
  then show ?thesis
    by (simp add: insert_catalyst_research_def)
qed

lemma after_insert_cases:
  "after_insert tbl new = tbl
   \<or> (after_insert tbl new = tbl @ [new] \<and> research_key new \<notin> research_key ` set tbl)"
  by (auto simp: after_insert_def insert_catalyst_research_def list_ex_iff research_key_def)

lemma after_insert_distinct:
  assumes "distinct (map research_key tbl)"
  shows "distinct (map research_key (after_insert tbl new))"
  using after_insert_cases [of tbl new] assms by auto

lemma foldl_after_insert_distinct:
  "distinct (map research_key tbl) \<Longrightarrow> distinct (map research_key (foldl after_insert tbl news))"
  by (induction news arbitrary: tbl) (simp_all add: after_insert_distinct)

text \<open>
  Claim C3. An \<^verbatim>\<open>INSERT\<close> into \<^verbatim>\<open>catalyst_research\<close> of a row whose
  \<^verbatim>\<open>(ticker, catalyst_date, catalyst_event)\<close> is that of a row of the table fails with
  a uniqueness violation and leaves the table as it was. Hence an insert keeps the
  triples of a table pairwise different, and they are pairwise different in every table
  that a sequence of inserts, failed or not, builds from the empty one.
\<close>

theorem catalyst_research_unique_triple:
  "(research_key new \<in> research_key ` set tbl \<longrightarrow>
      (\<exists>c. insert_catalyst_research tbl new = Inl (Unique_violation c))
      \<and> after_insert tbl new = tbl)
   \<and> (distinct (map research_key tbl) \<longrightarrow> distinct (map research_key (after_insert tbl new)))
   \<and> distinct (map research_key (foldl after_insert [] news))"
proof (intro conjI impI)
  assume k: "research_key new \<in> research_key ` set tbl"
  then show "\<exists>c. insert_catalyst_research tbl new = Inl (Unique_violation c)"
    by (rule insert_same_triple)
  then show "after_insert tbl new = tbl"
    by (auto simp: after_insert_def)
next
  assume "distinct (map research_key tbl)"
  then show "distinct (map research_key (after_insert tbl new))"
    by (rule after_insert_distinct)
next
  show "distinct (map research_key (foldl after_insert [] news))"
    by (rule foldl_after_insert_distinct) simp
qed

lemma research_key_defaults [simp]:
  "research_key (research_with_defaults now i t d e) = (t, d, e)"
  by (simp add: research_key_def research_with_defaults_def)

lemma research_id_defaults [simp]:
  "catalyst_research.id_col (research_with_defaults now i t d e) = i"
  by (simp add: research_with_defaults_def)

theorem catalyst_research_unique_triple_witness:
  "research_key (research_with_defaults 5 2 ''ABCD'' ''2026-03-01'' ''PDUFA'')
     \<in> research_key ` set [research_with_defaults 0 1 ''ABCD'' ''2026-03-01'' ''PDUFA'']
   \<and> insert_catalyst_research [research_with_defaults 0 1 ''ABCD'' ''2026-03-01'' ''PDUFA'']
        (research_with_defaults 5 2 ''ABCD'' ''2026-03-01'' ''PDUFA'')
       = Inl (Unique_violation Catalyst_research_ticker_catalyst_date_catalyst_event_key)
   \<and> after_insert [research_with_defaults 0 1 ''ABCD'' ''2026-03-01'' ''PDUFA'']
        (research_with_defaults 5 2 ''ABCD'' ''2026-03-01'' ''PDUFA'')
       = [research_with_defaults 0 1 ''ABCD'' ''2026-03-01'' ''PDUFA'']
   \<and> after_insert [research_with_defaults 0 1 ''ABCD'' ''2026-03-01'' ''PDUFA'']
        (research_with_defaults 5 2 ''ABCD'' ''2026-03-02'' ''PDUFA'')
       = [research_with_defaults 0 1 ''ABCD'' ''2026-03-01'' ''PDUFA'',
          research_with_defaults 5 2 ''ABCD'' ''2026-03-02'' ''PDUFA'']
   \<and> distinct (map research_key (foldl after_insert []
        [research_with_defaults 0 1 ''ABCD'' ''2026-03-01'' ''PDUFA'',
         research_with_defaults 5 2 ''ABCD'' ''2026-03-01'' ''PDUFA'']))"
proof -
  let ?old = "research_with_defaults 0 1 ''ABCD'' ''2026-03-01'' ''PDUFA''"
  let ?new = "research_with_defaults 5 2 ''ABCD'' ''2026-03-01'' ''PDUFA''"
  let ?other = "research_with_defaults 5 2 ''ABCD'' ''2026-03-02'' ''PDUFA''"
  have k: "research_key ?new \<in> research_key ` set [?old]"
    by simp
  have e: "insert_catalyst_research [?old] ?new
    = Inl (Unique_violation Catalyst_research_ticker_catalyst_date_catalyst_event_key)"
    by (simp add: insert_catalyst_research_def research_with_defaults_def)
  have a: "after_insert [?old] ?new = [?old]"
    using catalyst_research_unique_triple [of ?new "[?old]" "[]"] k by blast
  have o: "after_insert [?old] ?other = [?old, ?other]"
    by (simp add: after_insert_def insert_catalyst_research_def research_with_defaults_def)
  have d: "distinct (map research_key (foldl after_insert [] [?old, ?new]))"
    using catalyst_research_unique_triple [of ?new "[?old]" "[?old, ?new]"] by blast
  from k e a o d show ?thesis by blast
qed

section \<open>The waitlist trigger\<close>

lemma handle_new_user_present:
  "list_ex (\<lambda>p. profile.id_col p = auth_user.id_col new) profiles \<Longrightarrow>
   handle_new_user ft now dflt new profiles = profiles"
  by (simp add: handle_new_user_def)

lemma handle_new_user_absent:
  "\<not> list_ex (\<lambda>p. profile.id_col p = auth_user.id_col new) profiles \<Longrightarrow>
   handle_new_user ft now dflt new profiles = profiles @ [new_profile ft now dflt new]"
  by (simp add: handle_new_user_def)

lemma fire_all_present:
  assumes "list_ex (\<lambda>p. profile.id_col p = i) profiles"
    and "\<forall>f \<in> set firings. auth_user.id_col (snd f) = i"
  shows "fire_all ft dflt profiles firings = profiles"
  using assms(2)
proof (induction firings)
  case Nil
  then show ?case by (simp add: fire_all_def)
next
  case (Cons f firings)
  obtain now new where f: "f = (now, new)" by (cases f)
  with Cons.prems have "auth_user.id_col new = i" by simp
  with assms(1) have "handle_new_user ft now dflt new profiles = profiles"
    by (simp add: handle_new_user_present)
  with Cons f show ?case
    by (simp add: fire_all_def)
qed

lemma new_profile_fields [simp]:
  "profile.id_col (new_profile ft now dflt new) = auth_user.id_col new"
  "access_status (new_profile ft now dflt new) = Some ''waitlist''"
  by (simp_all add: new_profile_def)

lemma fire_all_absent:
  assumes "\<not> list_ex (\<lambda>p. profile.id_col p = i) profiles"
    and "\<forall>f \<in> set ((now, new) # firings). auth_user.id_col (snd f) = i"
  shows "fire_all ft dflt profiles ((now, new) # firings) = profiles @ [new_profile ft now dflt new]"
proof -
  from assms(2) have i: "auth_user.id_col new = i" by simp
  with assms(1) have 1: "handle_new_user ft now dflt new profiles = profiles @ [new_profile ft now dflt new]"
    by (simp add: handle_new_user_absent)
  have "list_ex (\<lambda>p. profile.id_col p = i) (profiles @ [new_profile ft now dflt new])"
    using i by simp
  moreover from assms(2) have "\<forall>f \<in> set firings. auth_user.id_col (snd f) = i" by simp
  ultimately have "fire_all ft dflt (profiles @ [new_profile ft now dflt new]) firings
     = profiles @ [new_profile ft now dflt new]"
    by (rule fire_all_present)
  with 1 show ?thesis
    by (simp add: fire_all_def)
qed

text \<open>
  Claim C4. A firing of the trigger for an account whose id already has a profile row
  changes nothing. When the trigger fires one or more times for one account id that has
  no profile row yet (whatever email, metadata and time each firing carries), the table
  afterwards holds exactly one row for that id, and that row has
  \<^verbatim>\<open>access_status = 'waitlist'\<close>.
\<close>

theorem handle_new_user_idempotent:
  "(list_ex (\<lambda>p. profile.id_col p = auth_user.id_col new) profiles \<longrightarrow>
      handle_new_user ft now dflt new profiles = profiles)
   \<and> (\<not> list_ex (\<lambda>p. profile.id_col p = i) profiles \<and> firings \<noteq> []
        \<and> (\<forall>f \<in> set firings. auth_user.id_col (snd f) = i) \<longrightarrow>
      length (filter (\<lambda>p. profile.id_col p = i) (fire_all ft dflt profiles firings)) = 1
      \<and> (\<forall>p \<in> set (fire_all ft dflt profiles firings).
            profile.id_col p = i \<longrightarrow> access_status p = Some ''waitlist''))"
proof (intro conjI impI)
  assume "list_ex (\<lambda>p. profile.id_col p = auth_user.id_col new) profiles"
  then show "handle_new_user ft now dflt new profiles = profiles"
    by (rule handle_new_user_present)
next
  assume a: "\<not> list_ex (\<lambda>p. profile.id_col p = i) profiles \<and> firings \<noteq> []
        \<and> (\<forall>f \<in> set firings. auth_user.id_col (snd f) = i)"
  then obtain t u rest where f: "firings = (t, u) # rest"
    by (cases firings) auto
  from a f have "\<not> list_ex (\<lambda>p. profile.id_col p = i) profiles"
    and "\<forall>f \<in> set ((t, u) # rest). auth_user.id_col (snd f) = i"
    by simp_all
  then have "fire_all ft dflt profiles ((t, u) # rest) = profiles @ [new_profile ft t dflt u]"
    by (rule fire_all_absent)
  with f have eq: "fire_all ft dflt profiles firings = profiles @ [new_profile ft t dflt u]"
    by simp
  from a f have u: "auth_user.id_col u = i" by simp
  from a have none: "filter (\<lambda>p. profile.id_col p = i) profiles = []"
    by (auto simp: list_ex_iff filter_empty_conv)
  show "length (filter (\<lambda>p. profile.id_col p = i) (fire_all ft dflt profiles firings)) = 1"
    using eq u none by simp
  show "\<forall>p \<in> set (fire_all ft dflt profiles firings).
            profile.id_col p = i \<longrightarrow> access_status p = Some ''waitlist''"
    using eq a by (auto simp: list_ex_iff)
qed

theorem handle_new_user_idempotent_witness:
  "fire_all map_of () []
     [(10, \<lparr>auth_user.id_col = ''u-1'', auth_user.email = Some ''ann@example.com'',
            auth_user.raw_user_meta_data = Some [(''full_name'', ''Ann'')]\<rparr>),
      (20, \<lparr>auth_user.id_col = ''u-1'', auth_user.email = Some ''ann@example.org'',
            auth_user.raw_user_meta_data = None\<rparr>)]
     = [\<lparr>profile.id_col = ''u-1'', email = Some ''ann@example.com'', full_name = Some ''Ann'',
         access_status = Some ''waitlist'', created_at = Some 10\<rparr>]
   \<and> length (filter (\<lambda>p. profile.id_col p = ''u-1'')
        (fire_all map_of () []
          [(10, \<lparr>auth_user.id_col = ''u-1'', auth_user.email = Some ''ann@example.com'',
                 auth_user.raw_user_meta_data = Some [(''full_name'', ''Ann'')]\<rparr>),
           (20, \<lparr>auth_user.id_col = ''u-1'', auth_user.email = Some ''ann@example.org'',
                 auth_user.raw_user_meta_data = None\<rparr>)])) = 1
   \<and> handle_new_user map_of 30 ()
        \<lparr>auth_user.id_col = ''u-1'', auth_user.email = Some ''ann@example.org'',
         auth_user.raw_user_meta_data = None\<rparr>
        [\<lparr>profile.id_col = ''u-1'', email = Some ''ann@example.com'', full_name = Some ''Ann'',
          access_status = Some ''approved'', created_at = Some 10\<rparr>]
     = [\<lparr>profile.id_col = ''u-1'', email = Some ''ann@example.com'', full_name = Some ''Ann'',
          access_status = Some ''approved'', created_at = Some 10\<rparr>]"
proof -
  let ?u1 = "\<lparr>auth_user.id_col = ''u-1'', auth_user.email = Some ''ann@example.com'',
            auth_user.raw_user_meta_data = Some [(''full_name'', ''Ann'')]\<rparr>"
  let ?u2 = "\<lparr>auth_user.id_col = ''u-1'', auth_user.email = Some ''ann@example.org'',
            auth_user.raw_user_meta_data = (None :: (string \<times> string) list option)\<rparr>"
  let ?p = "\<lparr>profile.id_col = ''u-1'', email = Some ''ann@example.com'', full_name = Some ''Ann'',
         access_status = Some ''approved'', created_at = Some 10\<rparr>"
  have 1: "fire_all map_of () [] [(10, ?u1), (20, ?u2)]
     = [\<lparr>profile.id_col = ''u-1'', email = Some ''ann@example.com'', full_name = Some ''Ann'',
         access_status = Some ''waitlist'', created_at = Some 10\<rparr>]"
    by (simp add: fire_all_def handle_new_user_def new_profile_def coalesce_def)
  have 2: "length (filter (\<lambda>p. profile.id_col p = ''u-1'')
        (fire_all map_of () [] [(10, ?u1), (20, ?u2)])) = 1"
    using handle_new_user_idempotent [of ?u2 "[]" map_of 0 "()" "''u-1''" "[(10, ?u1), (20, ?u2)]"]
    by simp
  have 3: "handle_new_user map_of 30 () ?u2 [?p] = [?p]"
    using handle_new_user_idempotent [of ?u2 "[?p]" map_of 30 "()" "''u-1''" "[]"]
    by simp
  from 1 2 3 show ?thesis by blast
qed

section \<open>The auth client wrapper\<close>

lemma get_prop_answer: "is_answer v \<Longrightarrow> \<exists>w. get_prop v key = Inr w"
  by (cases v) simp_all

lemma data_error_answer:
  "is_answer ans \<Longrightarrow> \<exists>d e. data_error ans = Inr (Obj [(js ''data'', d), (js ''error'', e)])"
  using get_prop_answer [of ans "js ''data''"] get_prop_answer [of ans "js ''error''"]
  by (auto simp: data_error_def and_then_def)

text \<open>
  Claim C8, as the code has it. \<^verbatim>\<open>signUp\<close>, \<^verbatim>\<open>signIn\<close>, \<^verbatim>\<open>resetPassword\<close>,
  \<^verbatim>\<open>updatePassword\<close>, \<^verbatim>\<open>getProfile\<close> and \<^verbatim>\<open>updateProfile\<close> return a result pair
  of data and error whenever their call of the client answers with a value that is not
  \<^verbatim>\<open>undefined\<close> or \<^verbatim>\<open>null\<close>. \<^verbatim>\<open>signOut\<close> then returns an object with the error
  slot alone. \<^verbatim>\<open>getUser\<close> and \<^verbatim>\<open>getSession\<close> return the bare \<^verbatim>\<open>user\<close> and
  \<^verbatim>\<open>session\<close> of the answer's data, and \<^verbatim>\<open>isAuthenticated\<close> the truth value of the
  session; the error slot of the answer is dropped. The wrapper has no handler: when the
  call of the client throws, the operation throws the same exception.
\<close>

theorem pbsAuth_results:
  "(auth_signUp client (signUp_credentials org em pw fn) = Inr ans \<and> is_answer ans \<longrightarrow>
      (\<exists>v. signUp client org em pw fn = Inr v \<and> is_result_pair v))
   \<and> (auth_signInWithPassword client (signIn_credentials em pw) = Inr ans \<and> is_answer ans \<longrightarrow>
      (\<exists>v. signIn client em pw = Inr v \<and> is_result_pair v))
   \<and> (auth_resetPasswordForEmail client em (resetPassword_options org) = Inr ans \<and> is_answer ans \<longrightarrow>
      (\<exists>v. resetPassword client org em = Inr v \<and> is_result_pair v))
   \<and> (auth_updateUser client (Obj [(js ''password'', pw)]) = Inr ans \<and> is_answer ans \<longrightarrow>
      (\<exists>v. updatePassword client pw = Inr v \<and> is_result_pair v))
   \<and> (from_select_eq_single client (js ''profiles'') (js ''*'') (js ''id'') uid = Inr ans \<and> is_answer ans \<longrightarrow>
      (\<exists>v. getProfile client uid = Inr v \<and> is_result_pair v))
   \<and> (from_upsert client (js ''profiles'') (updateProfile_row ts uid upd) = Inr ans \<and> is_answer ans \<longrightarrow>
      (\<exists>v. updateProfile client ts uid upd = Inr v \<and> is_result_pair v))
   \<and> (auth_signOut client = Inr ans \<and> is_answer ans \<longrightarrow>
      (\<exists>e. signOut client = Inr (Obj [(js ''error'', e)])))
   \<and> (auth_getUser client = Inr ans \<and> get_prop ans (js ''data'') = Inr d \<and> is_answer d \<longrightarrow>
      (\<exists>v. get_prop d (js ''user'') = Inr v \<and> getUser client = Inr v))
   \<and> (auth_getSession client = Inr ans \<and> get_prop ans (js ''data'') = Inr d \<and> is_answer d \<longrightarrow>
      (\<exists>v. get_prop d (js ''session'') = Inr v \<and> getSession client = Inr v
         \<and> isAuthenticated client = Inr (Bool (to_boolean v))))
   \<and> (auth_signUp client (signUp_credentials org em pw fn) = Inl x \<longrightarrow> signUp client org em pw fn = Inl x)
   \<and> (auth_signInWithPassword client (signIn_credentials em pw) = Inl x \<longrightarrow> signIn client em pw = Inl x)
   \<and> (auth_resetPasswordForEmail client em (resetPassword_options org) = Inl x \<longrightarrow> resetPassword client org em = Inl x)
   \<and> (auth_updateUser client (Obj [(js ''password'', pw)]) = Inl x \<longrightarrow> updatePassword client pw = Inl x)
   \<and> (from_select_eq_single client (js ''profiles'') (js ''*'') (js ''id'') uid = Inl x \<longrightarrow> getProfile client uid = Inl x)
   \<and> (from_upsert client (js ''profiles'') (updateProfile_row ts uid upd) = Inl x \<longrightarrow> updateProfile client ts uid upd = Inl x)
   \<and> (auth_signOut client = Inl x \<longrightarrow> signOut client = Inl x)
   \<and> (auth_getUser client = Inl x \<longrightarrow> getUser client = Inl x)
   \<and> (auth_getSession client = Inl x \<longrightarrow>
      getSession client = Inl x \<and> isAuthenticated client = Inl x)"
proof -
  have pair: "\<exists>v. and_then c data_error = Inr v \<and> is_result_pair v"
    if "c = Inr ans \<and> is_answer ans" for c
    using that data_error_answer [of ans] by (auto simp: and_then_def)
  have thrown: "and_then c f = Inl x" if "c = Inl x" for c :: "val completion" and f :: "val \<Rightarrow> val completion"
    using that by (simp add: and_then_def)
  have out: "\<exists>e. signOut client = Inr (Obj [(js ''error'', e)])"
    if "auth_signOut client = Inr ans \<and> is_answer ans"
    using that get_prop_answer [of ans "js ''error''"] by (auto simp: signOut_def and_then_def)
  have user: "\<exists>v. get_prop d (js ''user'') = Inr v \<and> getUser client = Inr v"
    if "auth_getUser client = Inr ans \<and> get_prop ans (js ''data'') = Inr d \<and> is_answer d"
    using that get_prop_answer [of d "js ''user''"] by (auto simp: getUser_def and_then_def)
  have session: "\<exists>v. get_prop d (js ''session'') = Inr v \<and> getSession client = Inr v
         \<and> isAuthenticated client = Inr (Bool (to_boolean v))"
    if "auth_getSession client = Inr ans \<and> get_prop ans (js ''data'') = Inr d \<and> is_answer d"
    using that get_prop_answer [of d "js ''session''"]
    by (auto simp: getSession_def isAuthenticated_def and_then_def)
  show ?thesis
    unfolding signUp_def signIn_def resetPassword_def updatePassword_def getProfile_def
      updateProfile_def
    using pair thrown out user session
    by (simp add: signOut_def getUser_def getSession_def isAuthenticated_def)
qed

theorem pbsAuth_results_witness:
  "(\<exists>v. getProfile offline_client (Str (js ''u-1'')) = Inr v \<and> is_result_pair v)
   \<and> (\<exists>e. signOut offline_client = Inr (Obj [(js ''error'', e)]))
   \<and> (\<exists>v. get_prop (Obj [(js ''user'', Null)]) (js ''user'') = Inr v
          \<and> getUser offline_client = Inr v)
   \<and> signIn offline_client (Str (js ''ann@example.com'')) (Str (js ''secret''))
       = Inl (Thrown (Str (js ''Failed to fetch'')))"
proof -
  let ?failed = "Obj [(js ''data'', Null),
      (js ''error'', Obj [(js ''message'', Str (js ''TypeError: Failed to fetch''))])]"
  let ?missing = "Obj [(js ''data'', Obj [(js ''user'', Null)]),
      (js ''error'', Obj [(js ''message'', Str (js ''Auth session missing!''))])]"
  have h1: "from_select_eq_single offline_client (js ''profiles'') (js ''*'') (js ''id'')
      (Str (js ''u-1'')) = Inr ?failed \<and> is_answer ?failed"
    by (simp add: offline_client_def)
  have "from_select_eq_single offline_client (js ''profiles'') (js ''*'') (js ''id'')
      (Str (js ''u-1'')) = Inr ?failed \<and> is_answer ?failed \<longrightarrow>
      (\<exists>v. getProfile offline_client (Str (js ''u-1'')) = Inr v \<and> is_result_pair v)"
    using pbsAuth_results [where client = offline_client and org = "[]" and em = "Null"
      and pw = "Null" and fn = Null and ans = "?failed"
      and uid = "Str (js ''u-1'')" and ts = "[]" and upd = Null and d = "Null"
      and x = "TypeError"]
    by (elim conjE)
  with h1 have 1: "\<exists>v. getProfile offline_client (Str (js ''u-1'')) = Inr v \<and> is_result_pair v"
    by (rule rev_mp)
  have h2: "auth_signOut offline_client = Inr (Obj [(js ''error'', Null)])
      \<and> is_answer (Obj [(js ''error'', Null)])"
    by (simp add: offline_client_def)
  have "auth_signOut offline_client = Inr (Obj [(js ''error'', Null)])
      \<and> is_answer (Obj [(js ''error'', Null)]) \<longrightarrow>
      (\<exists>e. signOut offline_client = Inr (Obj [(js ''error'', e)]))"
    using pbsAuth_results [where client = offline_client and org = "[]" and em = "Null"
      and pw = "Null" and fn = Null and ans = "Obj [(js ''error'', Null)]"
      and uid = "Null" and ts = "[]" and upd = Null and d = "Null"
      and x = "TypeError"]
    by (elim conjE)
  with h2 have 2: "\<exists>e. signOut offline_client = Inr (Obj [(js ''error'', e)])"
    by (rule rev_mp)
  have h3: "auth_getUser offline_client = Inr ?missing
      \<and> get_prop ?missing (js ''data'') = Inr (Obj [(js ''user'', Null)])
      \<and> is_answer (Obj [(js ''user'', Null)])"
    by (simp add: offline_client_def)
  have "auth_getUser offline_client = Inr ?missing
      \<and> get_prop ?missing (js ''data'') = Inr (Obj [(js ''user'', Null)])
      \<and> is_answer (Obj [(js ''user'', Null)]) \<longrightarrow>
      (\<exists>v. get_prop (Obj [(js ''user'', Null)]) (js ''user'') = Inr v
         \<and> getUser offline_client = Inr v)"
    using pbsAuth_results [where client = offline_client and org = "[]" and em = "Null"
      and pw = "Null" and fn = Null and ans = "?missing"
      and uid = "Null" and ts = "[]" and upd = Null and d = "Obj [(js ''user'', Null)]"
      and x = "TypeError"]
    by (elim conjE)
  with h3 have 3: "\<exists>v. get_prop (Obj [(js ''user'', Null)]) (js ''user'') = Inr v
      \<and> getUser offline_client = Inr v"
    by (rule rev_mp)
  have h4: "auth_signInWithPassword offline_client
      (signIn_credentials (Str (js ''ann@example.com'')) (Str (js ''secret'')))
      = Inl (Thrown (Str (js ''Failed to fetch'')))"
    by (simp add: offline_client_def)
  have "auth_signInWithPassword offline_client
      (signIn_credentials (Str (js ''ann@example.com'')) (Str (js ''secret'')))
      = Inl (Thrown (Str (js ''Failed to fetch''))) \<longrightarrow>
      signIn offline_client (Str (js ''ann@example.com'')) (Str (js ''secret''))
      = Inl (Thrown (Str (js ''Failed to fetch'')))"
    using pbsAuth_results [where client = offline_client and org = "[]" and em = "Str (js ''ann@example.com'')"
      and pw = "Str (js ''secret'')" and fn = Null and ans = "Null"
      and uid = "Null" and ts = "[]" and upd = Null and d = "Null"
      and x = "Thrown (Str (js ''Failed to fetch''))"]
    by (elim conjE)
  with h4 have 4: "signIn offline_client (Str (js ''ann@example.com'')) (Str (js ''secret''))
      = Inl (Thrown (Str (js ''Failed to fetch'')))"
    by (rule rev_mp)
  from 1 2 3 4 show ?thesis
    by (intro conjI)
qed

text \<open>
  The claim as written has every operation return a result pair and none throw. For a
  visitor who is not signed in, \<^verbatim>\<open>getUser\<close> returns \<^verbatim>\<open>null\<close>,
  \<^verbatim>\<open>isAuthenticated\<close> returns \<^verbatim>\<open>false\<close> and \<^verbatim>\<open>signOut\<close> an object without a data
  slot, none of them a result pair; and when the client's sign-in call throws,
  \<^verbatim>\<open>signIn\<close> throws.
\<close>

theorem pbsAuth_results_counterexample:
  "getUser offline_client = Inr Null \<and> \<not> is_result_pair Null
   \<and> getSession offline_client = Inr Null
   \<and> isAuthenticated offline_client = Inr (Bool False) \<and> \<not> is_result_pair (Bool False)
   \<and> signOut offline_client = Inr (Obj [(js ''error'', Null)])
   \<and> \<not> is_result_pair (Obj [(js ''error'', Null)])
   \<and> signIn offline_client (Str (js ''ann@example.com'')) (Str (js ''secret''))
       = Inl (Thrown (Str (js ''Failed to fetch'')))"
  by (simp add: getUser_def getSession_def isAuthenticated_def signOut_def signIn_def
      offline_client_def and_then_def)

section \<open>The news widget\<close>

lemma load_news_empty_cache:
  assumes "\<not> to_boolean (newsData s)"
  shows "requests (snd (load_news fetch url s)) = requests s @ [url]"
    and "innerHTML (snd (load_news fetch url s)) = innerHTML s"
    and "console (snd (load_news fetch url s)) = console s"
  using assms by (simp_all add: load_news_def Let_def split: fetch_result.splits)

lemma load_news_failure:
  assumes "\<not> to_boolean (newsData s)"
    and "fetch url = Fetch_rejected e \<or> fetch url = Json_rejected e"
  shows "load_news fetch url s = (Some e, s\<lparr>requests := requests s @ [url]\<rparr>)"
  using assms by (auto simp: load_news_def Let_def)

lemma init_requests:
  assumes "\<not> to_boolean (newsData s)" and "innerHTML s cid \<noteq> None"
  shows "requests (init fetch cid tk opts s) = requests s @ [dataUrl (config_of opts)]"
proof -
  from assms(2) obtain c where c: "innerHTML s cid = Some c" by auto
  let ?s1 = "s\<lparr>innerHTML := (innerHTML s)(cid \<mapsto> Loading_html)\<rparr>"
  obtain thrown s2 where l: "load_news fetch (dataUrl (config_of opts)) ?s1 = (thrown, s2)"
    by (cases "load_news fetch (dataUrl (config_of opts)) ?s1")
  from assms(1) have "\<not> to_boolean (newsData ?s1)" by simp
  from load_news_empty_cache(1) [OF this, of fetch "dataUrl (config_of opts)"] l
  have "requests s2 = requests s @ [dataUrl (config_of opts)]"
    by simp
  with c l show ?thesis
    by (simp add: init_def Let_def split: sum.splits)
qed

lemma init_failure:
  assumes "\<not> to_boolean (newsData s)" and "innerHTML s cid \<noteq> None"
    and "fetch (dataUrl (config_of opts)) = Fetch_rejected e
         \<or> fetch (dataUrl (config_of opts)) = Json_rejected e"
  shows "init fetch cid tk opts s =
     s\<lparr>innerHTML := (innerHTML s)(cid \<mapsto> Error_html),
       console := console s @ [Component_error e],
       requests := requests s @ [dataUrl (config_of opts)]\<rparr>"
proof -
  from assms(2) obtain c where c: "innerHTML s cid = Some c" by auto
  let ?s1 = "s\<lparr>innerHTML := (innerHTML s)(cid \<mapsto> Loading_html)\<rparr>"
  from assms(1) have "\<not> to_boolean (newsData ?s1)" by simp
  from load_news_failure [of ?s1 fetch "dataUrl (config_of opts)" e, OF this assms(3)]
  have "load_news fetch (dataUrl (config_of opts)) ?s1
     = (Some e, ?s1\<lparr>requests := requests ?s1 @ [dataUrl (config_of opts)]\<rparr>)" .
  with c show ?thesis
    by (simp add: init_def Let_def)
qed

lemma getTickerNews_requests:
  assumes "\<not> to_boolean (newsData s)"
  shows "requests (snd (getTickerNews fetch tk s)) = requests s @ [dataUrl default_config]"
  using load_news_empty_cache(1) [OF assms, of fetch "dataUrl default_config"]
  by (simp add: getTickerNews_def split_beta)

text \<open>
  Claim C10. Let the cache be \<^verbatim>\<open>null\<close> and let \<^verbatim>\<open>init\<close> run on a container that
  exists while the request of the feed is rejected or its body does not parse. Then the
  cache is still \<^verbatim>\<open>null\<close>, the container shows the error state, and one request was
  made. A later \<^verbatim>\<open>init\<close> (on a container that exists) and a later
  \<^verbatim>\<open>getTickerNews\<close> each make a request again, whatever the network does then.
\<close>

theorem news_fetch_failure:
  assumes "newsData s = Null" and "innerHTML s cid \<noteq> None"
    and "fetch (dataUrl (config_of opts)) = Fetch_rejected e
         \<or> fetch (dataUrl (config_of opts)) = Json_rejected e"
  shows "newsData (init fetch cid tk opts s) = Null
    \<and> innerHTML (init fetch cid tk opts s) cid = Some Error_html
    \<and> requests (init fetch cid tk opts s) = requests s @ [dataUrl (config_of opts)]
    \<and> (innerHTML (init fetch cid tk opts s) cid' \<noteq> None \<longrightarrow>
         requests (init fetch' cid' tk' opts' (init fetch cid tk opts s))
           = requests (init fetch cid tk opts s) @ [dataUrl (config_of opts')])
    \<and> requests (snd (getTickerNews fetch' tk' (init fetch cid tk opts s)))
         = requests (init fetch cid tk opts s) @ [dataUrl default_config]"
proof -
  let ?s' = "init fetch cid tk opts s"
  from assms(1) have empty: "\<not> to_boolean (newsData s)" by simp
  have eq: "?s' = s\<lparr>innerHTML := (innerHTML s)(cid \<mapsto> Error_html),
       console := console s @ [Component_error e],
       requests := requests s @ [dataUrl (config_of opts)]\<rparr>"
    using empty assms(2,3) by (rule init_failure)
  have 1: "newsData ?s' = Null"
    unfolding eq using assms(1) by simp
  have 2: "innerHTML ?s' cid = Some Error_html"
    unfolding eq by simp
  have 3: "requests ?s' = requests s @ [dataUrl (config_of opts)]"
    unfolding eq by simp
  from 1 have empty': "\<not> to_boolean (newsData ?s')" by simp
  have 4: "requests (init fetch' cid' tk' opts' ?s') = requests ?s' @ [dataUrl (config_of opts')]"
    if "innerHTML ?s' cid' \<noteq> None"
    using empty' that by (rule init_requests)
  have 5: "requests (snd (getTickerNews fetch' tk' ?s')) = requests ?s' @ [dataUrl default_config]"
    using empty' by (rule getTickerNews_requests)
  from 1 2 3 4 5 show ?thesis by blast
qed

theorem news_fetch_failure_witness:
  "newsData fresh_page = Null
   \<and> newsData (init network_down (js ''stock-news'') (js ''ABCD'')
        \<lparr>opt_dataUrl = None, opt_maxItems = Some 3\<rparr> fresh_page) = Null
   \<and> innerHTML (init network_down (js ''stock-news'') (js ''ABCD'')
        \<lparr>opt_dataUrl = None, opt_maxItems = Some 3\<rparr> fresh_page) (js ''stock-news'')
       = Some Error_html
   \<and> requests (init not_found_page (js ''stock-news'') (js ''ABCD'')
        \<lparr>opt_dataUrl = Some (js ''data/feed.json''), opt_maxItems = None\<rparr>
        (init network_down (js ''stock-news'') (js ''ABCD'')
          \<lparr>opt_dataUrl = None, opt_maxItems = Some 3\<rparr> fresh_page))
       = [js ''data/news.json'', js ''data/feed.json'']
   \<and> requests (snd (getTickerNews not_found_page (js ''ABCD'')
        (init network_down (js ''stock-news'') (js ''ABCD'')
          \<lparr>opt_dataUrl = None, opt_maxItems = Some 3\<rparr> fresh_page)))
       = [js ''data/news.json'', js ''data/news.json'']"
proof -
  let ?opts = "\<lparr>opt_dataUrl = None, opt_maxItems = Some 3\<rparr>"
  let ?opts' = "\<lparr>opt_dataUrl = Some (js ''data/feed.json''), opt_maxItems = None\<rparr>"
  let ?s' = "init network_down (js ''stock-news'') (js ''ABCD'') ?opts fresh_page"
  have h1: "newsData fresh_page = Null"
    by (simp add: fresh_page_def)
  have h2: "innerHTML fresh_page (js ''stock-news'') \<noteq> None"
    by (simp add: fresh_page_def)
  have h3: "network_down (dataUrl (config_of ?opts)) = Fetch_rejected TypeError
      \<or> network_down (dataUrl (config_of ?opts)) = Json_rejected TypeError"
    by (simp add: network_down_def)
  note T = news_fetch_failure [where s = fresh_page and cid = "js ''stock-news''"
      and fetch = network_down and opts = ?opts and e = TypeError and tk = "js ''ABCD''"
      and cid' = "js ''stock-news''" and fetch' = not_found_page and tk' = "js ''ABCD''"
      and opts' = ?opts', OF h1 h2 h3]
  from T have 1: "newsData ?s' = Null"
    by (elim conjE)
  from T have 2: "innerHTML ?s' (js ''stock-news'') = Some Error_html"
    by (elim conjE)
  from T have 3: "requests ?s' = requests fresh_page @ [dataUrl (config_of ?opts)]"
    by (elim conjE)
  from T have "innerHTML ?s' (js ''stock-news'') \<noteq> None \<longrightarrow>
      requests (init not_found_page (js ''stock-news'') (js ''ABCD'') ?opts' ?s')
        = requests ?s' @ [dataUrl (config_of ?opts')]"
    by (elim conjE)
  with 2 3 have 4: "requests (init not_found_page (js ''stock-news'') (js ''ABCD'') ?opts' ?s')
      = [js ''data/news.json'', js ''data/feed.json'']"
    by (simp add: fresh_page_def config_of_def default_config_def)
  from T have "requests (snd (getTickerNews not_found_page (js ''ABCD'') ?s'))
      = requests ?s' @ [dataUrl default_config]"
    by (elim conjE)
  with 3 have 5: "requests (snd (getTickerNews not_found_page (js ''ABCD'') ?s'))
      = [js ''data/news.json'', js ''data/news.json'']"
    by (simp add: fresh_page_def config_of_def default_config_def)
  from h1 1 2 4 5 show ?thesis
    by (intro conjI)
qed

end
